theory Spec2Isabelle
  imports Main "HOL-Library.Sublist"
begin

section \<open>Python strings\<close>

text \<open>
  Strings are lists of 8-bit characters; the file names, headers and field values of the
  pipeline are ASCII. The helpers below follow the Python string methods the two modules
  call: \<^verbatim>\<open>lower\<close>, \<^verbatim>\<open>in\<close> (substring test), \<^verbatim>\<open>endswith\<close>, \<^verbatim>\<open>join\<close>, \<^verbatim>\<open>split\<close>
  with a separator, and \<^verbatim>\<open>strip\<close>.
\<close>

definition lower_char :: "char \<Rightarrow> char" where
  "lower_char c =
     (case map_of (zip ''ABCDEFGHIJKLMNOPQRSTUVWXYZ'' ''abcdefghijklmnopqrstuvwxyz'') c of
        Some d \<Rightarrow> d
      | None \<Rightarrow> c)"

definition lower :: "string \<Rightarrow> string" where
  "lower s = map lower_char s"

text \<open>\<^verbatim>\<open>sub in s\<close>: \<open>sub\<close> occurs in \<open>s\<close> as a contiguous piece; the empty string
  occurs in every string.\<close>

fun str_contains :: "string \<Rightarrow> string \<Rightarrow> bool" where
  "str_contains sub [] = (sub = [])"
| "str_contains sub (c # cs) = (prefix sub (c # cs) \<or> str_contains sub cs)"

definition endswith :: "string \<Rightarrow> string \<Rightarrow> bool" where
  "endswith s suf = (length suf \<le> length s \<and> drop (length s - length suf) s = suf)"

fun join :: "string \<Rightarrow> string list \<Rightarrow> string" where
  "join sep [] = []"
| "join sep [x] = x"
| "join sep (x # y # ys) = x @ sep @ join sep (y # ys)"

text \<open>\<^verbatim>\<open>s.split(sep)\<close> for a separator: the pieces between the non-overlapping
  occurrences of \<open>sep\<close>, found from the left. \<open>acc\<close> holds the current piece, reversed.\<close>

fun split_from :: "string \<Rightarrow> string \<Rightarrow> string \<Rightarrow> string list" where
  "split_from sep acc [] = [rev acc]"
| "split_from sep acc (c # cs) =
     (if sep \<noteq> [] \<and> prefix sep (c # cs)
      then rev acc # split_from sep [] (drop (length sep - 1) cs)
      else split_from sep (c # acc) cs)"

definition split :: "string \<Rightarrow> string \<Rightarrow> string list" where
  "split s sep = split_from sep [] s"

text \<open>\<^verbatim>\<open>s.strip()\<close> removes the white space at both ends; the white-space characters of
  the ASCII range are tab, line feed, vertical tab, form feed, carriage return, the four
  separators 0x1C to 0x1F and the blank.\<close>

definition isspace :: "char \<Rightarrow> bool" where
  "isspace c = (c \<in> set [CHR 0x09, CHR 0x0A, CHR 0x0B, CHR 0x0C, CHR 0x0D,
                          CHR 0x1C, CHR 0x1D, CHR 0x1E, CHR 0x1F, CHR 0x20])"

definition strip :: "string \<Rightarrow> string" where
  "strip s = rev (dropWhile isspace (rev (dropWhile isspace s)))"

section \<open>Errors\<close>

text \<open>The exceptions that can leave the functions modelled here. None of them is caught
  by the modules, except \<open>IntegrityError\<close> in the loader's row loop.\<close>

datatype error =
    KeyError
  | ValueError
  | IndexError
  | StopIteration
  | IntegrityError
  | OperationalError
  | DataError

section \<open>The loader: \<^verbatim>\<open>sql_database.py\<close>\<close>

subsection \<open>The database driver\<close>

text \<open>
  The SQLite engine is not part of the repository. \<^verbatim>\<open>cursor.execute(sql, params)\<close> is a
  parameter of the model: a function from the database state, the statement text and the
  bound values to either a result code of the engine (the statement failed and, by the
  engine's statement atomicity, changed nothing) or the new database state.

  The driver turns a result code into an exception class. The classes below are the ones
  of the CPython \<^verbatim>\<open>sqlite3\<close> module: constraint violations and datatype mismatches are
  both raised as \<^verbatim>\<open>IntegrityError\<close>; a generic SQL error (a syntax error, a wrong number
  of values for the table) is an \<^verbatim>\<open>OperationalError\<close>.
\<close>

datatype sqlite_rc =
    SQLITE_ERROR
  | SQLITE_BUSY
  | SQLITE_FULL
  | SQLITE_TOOBIG
  | SQLITE_CONSTRAINT_PRIMARYKEY
  | SQLITE_CONSTRAINT_NOTNULL
  | SQLITE_MISMATCH

fun exception_class :: "sqlite_rc \<Rightarrow> error" where
  "exception_class SQLITE_ERROR = OperationalError"
| "exception_class SQLITE_BUSY = OperationalError"
| "exception_class SQLITE_FULL = OperationalError"
| "exception_class SQLITE_TOOBIG = DataError"
| "exception_class SQLITE_CONSTRAINT_PRIMARYKEY = IntegrityError"
| "exception_class SQLITE_CONSTRAINT_NOTNULL = IntegrityError"
| "exception_class SQLITE_MISMATCH = IntegrityError"

type_synonym 'db cursor = "'db \<Rightarrow> string \<Rightarrow> string list \<Rightarrow> sqlite_rc + 'db"

subsection \<open>Schema generation\<close>

text \<open>Lines 38 to 42: the first header whose lower-case form contains \<^verbatim>\<open>geo_id\<close>.\<close>

fun find_primary_key :: "string list \<Rightarrow> string option" where
  "find_primary_key [] = None"
| "find_primary_key (header # headers) =
     (if str_contains ''geo_id'' (lower header) then Some header
      else find_primary_key headers)"

text \<open>Lines 47 to 55. The list of strings tested against a column name is the one of
  the source, the empty string and the second comma included.\<close>

definition quote_chars :: "string list" where
  "quote_chars = ['' '', '','', ''&'', ''.'', '''', '','']"

definition needs_quotes :: "string \<Rightarrow> bool" where
  "needs_quotes column = list_ex (\<lambda>c. str_contains c column) quote_chars"

definition quoted :: "string \<Rightarrow> string" where
  "quoted column = [CHR 0x22] @ column @ [CHR 0x22]"

definition remaining_columns :: "string \<Rightarrow> string list \<Rightarrow> string list" where
  "remaining_columns primary_key_column headers =
     map (\<lambda>column. if needs_quotes column then quoted column else column)
       (filter (\<lambda>column. column \<noteq> primary_key_column) headers)"

text \<open>Line 56.\<close>

definition table_creation_sql :: "string \<Rightarrow> string \<Rightarrow> string list \<Rightarrow> string" where
  "table_creation_sql table_name primary_key_column headers =
     ''CREATE TABLE IF NOT EXISTS '' @ table_name @ '' ('' @ primary_key_column
       @ '' INTEGER PRIMARY KEY, ''
       @ join '' ,'' (remaining_columns primary_key_column headers) @ '')''"

subsection \<open>Inserting the rows\<close>

text \<open>Line 66: one question mark per field of the row.\<close>

definition insert_sql :: "string \<Rightarrow> string list \<Rightarrow> string" where
  "insert_sql table_name row =
     ''INSERT INTO '' @ table_name @ '' VALUES (''
       @ join '','' (replicate (length row) ''?'') @ '')''"

text \<open>Lines 62 to 70: the row is bound positionally; an \<^verbatim>\<open>IntegrityError\<close> is passed
  over and the loop goes on with the database as it was; any other exception leaves the
  function.\<close>

fun insert_rows :: "'db cursor \<Rightarrow> string \<Rightarrow> 'db \<Rightarrow> string list list \<Rightarrow> error + 'db" where
  "insert_rows execute table_name db [] = Inr db"
| "insert_rows execute table_name db (row # rows) =
     (case execute db (insert_sql table_name row) row of
        Inr db' \<Rightarrow> insert_rows execute table_name db' rows
      | Inl rc \<Rightarrow>
          (if exception_class rc = IntegrityError
           then insert_rows execute table_name db rows
           else Inl (exception_class rc)))"

subsection \<open>One file, all files\<close>

text \<open>\<^verbatim>\<open>os.path.splitext(file)[0]\<close> for a file name without directory separator: the
  name up to its last dot, unless only dots come before that dot.\<close>

definition splitext_root :: "string \<Rightarrow> string" where
  "splitext_root file =
     (let ext = takeWhile (\<lambda>c. c \<noteq> CHR ''.'') (rev file) in
      if length ext = length file then file
      else let root = take (length file - length ext - 1) file in
           if list_ex (\<lambda>c. c \<noteq> CHR ''.'') root then root else file)"

definition skip_message :: "string \<Rightarrow> string" where
  "skip_message file =
     ''Skipping file '' @ file @ '' as '' @ [CHR 0x27] @ ''geo_id'' @ [CHR 0x27]
       @ '' column not found''"

text \<open>
  A file of the output directory is its name and the rows that \<^verbatim>\<open>csv.reader\<close> yields
  for it. The state of the run is the database and the lines printed so far. Lines 29 to
  70, for one file of the walk:
\<close>

definition load_file ::
  "'db cursor \<Rightarrow> string \<times> string list list \<Rightarrow> 'db \<times> string list \<Rightarrow> error + 'db \<times> string list"
where
  "load_file execute f st =
     (case f of (file, csv_rows) \<Rightarrow>
      case st of (db, out) \<Rightarrow>
        if \<not> endswith file ''.csv'' then Inr (db, out)
        else
          (case csv_rows of
             [] \<Rightarrow> Inl StopIteration
           | headers # data \<Rightarrow>
               (case find_primary_key headers of
                  None \<Rightarrow> Inr (db, out @ [skip_message file])
                | Some primary_key_column \<Rightarrow>
                    (case execute db
                            (table_creation_sql (splitext_root file) primary_key_column headers)
                            [] of
                       Inl rc \<Rightarrow> Inl (exception_class rc)
                     | Inr db1 \<Rightarrow>
                         (case insert_rows execute (splitext_root file) db1 data of
                            Inl e \<Rightarrow> Inl e
                          | Inr db2 \<Rightarrow> Inr (db2, out))))))"

fun load_files ::
  "'db cursor \<Rightarrow> (string \<times> string list list) list \<Rightarrow> 'db \<times> string list
     \<Rightarrow> error + 'db \<times> string list"
where
  "load_files execute [] st = Inr st"
| "load_files execute (f # fs) st =
     (case load_file execute f st of
        Inl e \<Rightarrow> Inl e
      | Inr st' \<Rightarrow> load_files execute fs st')"

text \<open>Lines 27 to 73: all files of the walk, then the final message.\<close>

definition insert_tables_to_database ::
  "'db cursor \<Rightarrow> (string \<times> string list list) list \<Rightarrow> 'db \<Rightarrow> error + 'db \<times> string list"
where
  "insert_tables_to_database execute files db =
     (case load_files execute files (db, []) of
        Inl e \<Rightarrow> Inl e
      | Inr (db', out) \<Rightarrow>
          Inr (db', out @ [''Database created successfully and Tables added'']))"


subsection \<open>An engine for one table\<close>

text \<open>
  A model of what the engine does with the statements of lines 56 and 66 on a table that
  exists already and whose first column is the \<^verbatim>\<open>INTEGER PRIMARY KEY\<close>: the state is
  the number of columns of the table and the rows stored so far, each with its integer
  key. \<^verbatim>\<open>CREATE TABLE IF NOT EXISTS\<close> changes nothing, the table being there. For an
  \<^verbatim>\<open>INSERT\<close> the checks are the engine's, in its order: a statement without values or with a number of values other
  than the number of columns is an SQL error; a key text that is not numeric is a datatype
  mismatch; a key that is already stored violates the primary key. The model reads a key
  text as an unsigned decimal numeral within the 64-bit range; the engine also takes some
  other numeric spellings, which the examples below do not use.
\<close>

record table =
  ncols :: nat
  stored :: "(int \<times> string list) list"

definition digit_value :: "char \<Rightarrow> int option" where
  "digit_value c = map_of (zip ''0123456789'' [0, 1, 2, 3, 4, 5, 6, 7, 8, 9]) c"

definition integer_of_text :: "string \<Rightarrow> int option" where
  "integer_of_text s =
     (if s = [] \<or> list_ex (\<lambda>c. digit_value c = None) s then None
      else let n = foldl (\<lambda>n c. 10 * n + the (digit_value c)) 0 s in
           if n \<le> 9223372036854775807 then Some n else None)"

definition sqlite_execute :: "table cursor" where
  "sqlite_execute tb sql params =
     (if prefix ''CREATE TABLE IF NOT EXISTS '' sql then Inr tb
      else if params = [] \<or> length params \<noteq> ncols tb then Inl SQLITE_ERROR
      else
        (case integer_of_text (hd params) of
           None \<Rightarrow> Inl SQLITE_MISMATCH
         | Some k \<Rightarrow>
             if k \<in> set (map fst (stored tb)) then Inl SQLITE_CONSTRAINT_PRIMARYKEY
             else Inr (tb\<lparr>stored := stored tb @ [(k, tl params)]\<rparr>)))"

subsection \<open>What the engine reads in the two statements\<close>

text \<open>
  The engine is not part of the repository; the functions below model how it reads the
  texts of lines 56 and 66, for a fragment of its grammar. A name is plain when it is made
  of ASCII letters, digits and underscores, does not start with a digit and is not a
  keyword of the engine. In \<^verbatim>\<open>CREATE TABLE IF NOT EXISTS name (definition, ...)\<close> every
  definition declares one column, named by its first token: a plain name, or any text
  without a double quote between two double quotes; the tokens that follow the name are
  its type and constraints. \<open>None\<close> stands for a text outside the fragment, which the
  engine may refuse or read in another way; a result \<open>Some\<close> gives the table and the
  columns, in the order of their declaration, that the statement creates when the engine
  accepts it.
\<close>

definition ident_char :: "char \<Rightarrow> bool" where
  "ident_char c =
     (c \<in> set ''abcdefghijklmnopqrstuvwxyzABCDEFGHIJKLMNOPQRSTUVWXYZ0123456789_'')"




definition rest_char :: "char \<Rightarrow> bool" where
  "rest_char c = (ident_char c \<or> c = CHR '' '')"








section \<open>The pipeline: \<^verbatim>\<open>census_data.py\<close>\<close>

subsection \<open>Data frames\<close>

text \<open>
  The pandas library is not part of the repository; the operations the module calls are
  modelled here as far as the module uses them. A cell is a string, or one of the two
  missing values of pandas: \<^verbatim>\<open>None\<close> (a JSON \<^verbatim>\<open>null\<close>, the padding of a short row) and
  \<^verbatim>\<open>NaN\<close> (the filling of \<^verbatim>\<open>concat\<close> and \<^verbatim>\<open>merge\<close>). A data frame is its number of rows
  and its columns in order, each a label with one cell per row. The frames of the pipeline
  come from JSON arrays of strings, so every column has the \<^verbatim>\<open>object\<close> dtype. Their
  labels are distinct; a label is looked up at the first column that carries it.
\<close>

datatype cell = Str string | PyNone | NaN

record dataframe =
  nrows :: nat
  cols :: "(string \<times> cell list) list"

definition columns :: "dataframe \<Rightarrow> string list" where
  "columns df = map fst (cols df)"

text \<open>\<^verbatim>\<open>df[label]\<close> raises \<^verbatim>\<open>KeyError\<close> for a label that is not a column.\<close>

definition getitem :: "dataframe \<Rightarrow> string \<Rightarrow> error + cell list" where
  "getitem df label =
     (case map_of (cols df) label of
        None \<Rightarrow> Inl KeyError
      | Some values \<Rightarrow> Inr values)"

text \<open>\<^verbatim>\<open>df[label] = values\<close> replaces the column where it stands, or appends a new column
  after the last one.\<close>

fun update_col :: "string \<Rightarrow> cell list \<Rightarrow> (string \<times> cell list) list \<Rightarrow> (string \<times> cell list) list"
where
  "update_col label values [] = [(label, values)]"
| "update_col label values (c # cs) =
     (if fst c = label then (label, values) # cs else c # update_col label values cs)"

definition setitem :: "dataframe \<Rightarrow> string \<Rightarrow> cell list \<Rightarrow> dataframe" where
  "setitem df label values = df\<lparr>cols := update_col label values (cols df)\<rparr>"

text \<open>\<^verbatim>\<open>df.drop(columns=labels)\<close> raises \<^verbatim>\<open>KeyError\<close> when a label is not a column.\<close>

definition drop_columns :: "dataframe \<Rightarrow> string list \<Rightarrow> error + dataframe" where
  "drop_columns df labels =
     (if list_all (\<lambda>l. l \<in> set (columns df)) labels
      then Inr (df\<lparr>cols := filter (\<lambda>c. fst c \<notin> set labels) (cols df)\<rparr>)
      else Inl KeyError)"

text \<open>\<^verbatim>\<open>df[labels]\<close> with a list of labels: the named columns in the order of the list,
  \<^verbatim>\<open>KeyError\<close> when one of them is not a column.\<close>

fun select_cols :: "(string \<times> cell list) list \<Rightarrow> string list \<Rightarrow> error + (string \<times> cell list) list"
where
  "select_cols cs [] = Inr []"
| "select_cols cs (l # ls) =
     (case map_of cs l of
        None \<Rightarrow> Inl KeyError
      | Some values \<Rightarrow>
          (case select_cols cs ls of
             Inl e \<Rightarrow> Inl e
           | Inr rest \<Rightarrow> Inr ((l, values) # rest)))"

definition select_columns :: "dataframe \<Rightarrow> string list \<Rightarrow> error + dataframe" where
  "select_columns df labels =
     (case select_cols (cols df) labels of
        Inl e \<Rightarrow> Inl e
      | Inr cs \<Rightarrow> Inr (df\<lparr>cols := cs\<rparr>))"

text \<open>\<^verbatim>\<open>df.rename(columns=mapping)\<close>, the mapping built at lines 140 to 143: a label of the
  dictionary gets its new name, any other label stays.\<close>

definition rename_columns :: "(string \<times> string) list \<Rightarrow> dataframe \<Rightarrow> dataframe" where
  "rename_columns dictionary df =
     df\<lparr>cols := map (\<lambda>c. (case map_of dictionary (fst c) of
                               Some new_name \<Rightarrow> new_name
                             | None \<Rightarrow> fst c, snd c)) (cols df)\<rparr>"

text \<open>Sequencing of steps that may raise.\<close>

definition and_then :: "error + 'a \<Rightarrow> ('a \<Rightarrow> error + 'b) \<Rightarrow> error + 'b" where
  "and_then r f = (case r of Inl e \<Rightarrow> Inl e | Inr x \<Rightarrow> f x)"

subsection \<open>Lines 25 to 39: \<^verbatim>\<open>load_dataframe\<close>\<close>

text \<open>
  The body of a response is a JSON array: empty, or a header row followed by the data
  rows. \<^verbatim>\<open>pd.DataFrame(rows, columns=columns)\<close> pads the rows with \<^verbatim>\<open>None\<close> to the length
  of the longest one and raises \<^verbatim>\<open>ValueError\<close> when that length is not the number of
  labels; without rows the frame has the labels and no row.
\<close>

datatype response = Empty_Array | Table "string list" "cell list list"

definition width :: "'a list list \<Rightarrow> nat" where
  "width rows = fold max (map length rows) 0"

definition pad_row :: "nat \<Rightarrow> cell list \<Rightarrow> cell list" where
  "pad_row w row = row @ replicate (w - length row) PyNone"

fun make_cols :: "string list \<Rightarrow> cell list list \<Rightarrow> (string \<times> cell list) list" where
  "make_cols [] rows = []"
| "make_cols (label # labels) rows = (label, map hd rows) # make_cols labels (map tl rows)"

definition load_dataframe :: "response \<Rightarrow> error + dataframe" where
  "load_dataframe data_json =
     (case data_json of
        Empty_Array \<Rightarrow> Inl IndexError
      | Table header rows \<Rightarrow>
          if rows = [] then Inr \<lparr>nrows = 0, cols = map (\<lambda>label. (label, [])) header\<rparr>
          else if width rows \<noteq> length header then Inl ValueError
          else Inr \<lparr>nrows = length rows,
                    cols = make_cols header (map (pad_row (length header)) rows)\<rparr>)"

subsection \<open>Lines 43 to 66: \<^verbatim>\<open>preprocess_name_column\<close>\<close>

text \<open>
  \<^verbatim>\<open>.str.split("; ", expand=True)\<close>: a string gives its pieces, a missing value gives
  itself. The expanded frame has as many columns as the longest row has pieces (none for a
  frame without rows); a row of a \<^verbatim>\<open>NaN\<close> is filled with \<^verbatim>\<open>NaN\<close>, any other shorter row is
  padded with \<^verbatim>\<open>None\<close>. Assigning the expanded frame to the three labels raises
  \<^verbatim>\<open>ValueError\<close> unless it has three columns.
\<close>

fun split_cell :: "cell \<Rightarrow> cell list" where
  "split_cell (Str s) = map Str (split s ''; '')"
| "split_cell PyNone = [PyNone]"
| "split_cell NaN = [NaN]"

definition expand_row :: "nat \<Rightarrow> cell list \<Rightarrow> cell list" where
  "expand_row w row = (if row = [NaN] then replicate w NaN else pad_row w row)"

text \<open>\<^verbatim>\<open>.str.strip()\<close> leaves a missing value as it is.\<close>

fun strip_cell :: "cell \<Rightarrow> cell" where
  "strip_cell (Str s) = Str (strip s)"
| "strip_cell PyNone = PyNone"
| "strip_cell NaN = NaN"

definition preprocess_name_column :: "dataframe \<Rightarrow> error + dataframe" where
  "preprocess_name_column dataframe =
     and_then (getitem dataframe ''NAME'') (\<lambda>name.
       let parts = map split_cell name in
       if width parts \<noteq> 3 then Inl ValueError
       else
         let expanded = map (expand_row 3) parts;
             df1 = setitem dataframe ''Census_Tract'' (map (\<lambda>r. r ! 0) expanded);
             df2 = setitem df1 ''County_Name'' (map (\<lambda>r. r ! 1) expanded);
             df3 = setitem df2 ''State_Name'' (map (\<lambda>r. r ! 2) expanded)
         in
         and_then (drop_columns df3 [''Census_Tract'', ''NAME'']) (\<lambda>df4.
         and_then (getitem df4 ''State_Name'') (\<lambda>state_name.
           let df5 = setitem df4 ''State_Name'' (map strip_cell state_name) in
           and_then (getitem df5 ''County_Name'') (\<lambda>county_name.
             Inr (setitem df5 ''County_Name'' (map strip_cell county_name))))))"

subsection \<open>Lines 70 to 93: \<^verbatim>\<open>add_geo_id\<close>\<close>

text \<open>\<^verbatim>\<open>astype(str)\<close>: a string stays, a missing value becomes the text of its Python
  value.\<close>

fun py_str :: "cell \<Rightarrow> string" where
  "py_str (Str s) = s"
| "py_str PyNone = ''None''"
| "py_str NaN = ''nan''"

definition astype_str :: "cell list \<Rightarrow> cell list" where
  "astype_str values = map (\<lambda>v. Str (py_str v)) values"

text \<open>The three columns are strings when they are added, row by row.\<close>

definition add_series :: "cell list \<Rightarrow> cell list \<Rightarrow> cell list" where
  "add_series xs ys = map (\<lambda>p. Str (py_str (fst p) @ py_str (snd p))) (zip xs ys)"

definition add_geo_id :: "dataframe \<Rightarrow> string \<Rightarrow> string \<Rightarrow> string \<Rightarrow> error + dataframe" where
  "add_geo_id dataframe state_column county_column tract_column =
     and_then (getitem dataframe state_column) (\<lambda>s.
       let df1 = setitem dataframe state_column (astype_str s) in
       and_then (getitem df1 county_column) (\<lambda>c.
         let df2 = setitem df1 county_column (astype_str c) in
         and_then (getitem df2 tract_column) (\<lambda>t.
           let df3 = setitem df2 tract_column (astype_str t) in
           and_then (getitem df3 state_column) (\<lambda>state.
           and_then (getitem df3 county_column) (\<lambda>county.
           and_then (getitem df3 tract_column) (\<lambda>tract.
             Inr (setitem df3 ''geo_id'' (add_series (add_series state county) tract))))))))"

subsection \<open>Lines 117 to 309: the three cleaning functions\<close>

definition DESIRED_COLUMNS :: "string list" where
  "DESIRED_COLUMNS = [''geo_id'', ''state'', ''State_Name'', ''county'', ''County_Name'', ''tract'']"

definition dp_dictionary :: "(string \<times> string) list" where
  "dp_dictionary =
     [(''DP1_0078C'', ''white_population''),
      (''DP1_0079C'', ''black_african_american_population''),
      (''DP1_0080C'', ''american_indian_alaskan_native_population''),
      (''DP1_0081C'', ''asian_population''),
      (''DP1_0082C'', ''native_hawaiian_and_other_pacific_islander_population''),
      (''DP1_0083C'', ''Other_race_population'')]"

definition dhc_variable_dictionary :: "(string \<times> string) list" where
  "dhc_variable_dictionary =
     [(''H12A_002N'', ''owner_occuppied_white''),
      (''H12A_010N'', ''renter_occupied_white''),
      (''H12B_002N'', ''owner_occupied_black_or_african_american''),
      (''H12B_010N'', ''renter_occupied_black_or_african_american''),
      (''H12C_002N'', ''owner_occuppied_american_indian_alaska_native''),
      (''H12C_010N'', ''renter_occupied_american_indian_alaska_native''),
      (''H12D_002N'', ''owner_occupied_asian''),
      (''H12D_010N'', ''renter_occupied_asian''),
      (''H12E_002N'', ''owner_occupied_native_hawaiian''),
      (''H12E_010N'', ''renter_occupied_native_hawaiian''),
      (''H12F_002N'', ''owner_occuppied_other_race''),
      (''H12F_010N'', ''renter_occuppied_other_race'')]"

definition cre_dictionary :: "(string \<times> string) list" where
  "cre_dictionary =
     [(''PRED0_E'',
         ''estimated_number_of_individuals_with_zero_components_of_social_vulnerability''),
      (''PRED0_PE'', ''rate_of_individuals_with_zero_components_of_social_vulnerability''),
      (''PRED12_E'',
         ''estimated_number_of_individuals_with_one_two_components_of_social_vulnerability''),
      (''PRED12_PE'', ''rate_of_individuals_with_one_two_components_of_social_vulnerability''),
      (''PRED3_E'',
         ''estimated_number_of_individuals_with_three_or_more_components_of_social_vulnerability''),
      (''PRED3_PE'',
         ''rate_of_individuals_with_three_or_more_components_of_social_vulnerability'')]"

text \<open>
  \<^verbatim>\<open>pd.concat(frames, ignore_index=True)\<close>: the labels of all frames in the order of
  their first appearance, the rows of the frames one after the other, \<^verbatim>\<open>NaN\<close> where a
  frame has no such column; \<^verbatim>\<open>ValueError\<close> for an empty list.
\<close>

definition union_labels :: "string list \<Rightarrow> string list" where
  "union_labels labels = rev (remdups (rev labels))"

definition column_or_nan :: "string \<Rightarrow> dataframe \<Rightarrow> cell list" where
  "column_or_nan label df =
     (case map_of (cols df) label of
        Some values \<Rightarrow> values
      | None \<Rightarrow> replicate (nrows df) NaN)"

definition pd_concat :: "dataframe list \<Rightarrow> error + dataframe" where
  "pd_concat frames =
     (if frames = [] then Inl ValueError
      else Inr \<lparr>nrows = sum_list (map nrows frames),
                cols = map (\<lambda>label. (label, concat (map (column_or_nan label) frames)))
                         (union_labels (concat (map columns frames)))\<rparr>)"

text \<open>The responses of the API, one for each state of \<^verbatim>\<open>STATE_CODE_DICTIONARY\<close> in its
  order, are the input of the model; the loop of each \<^verbatim>\<open>_api\<close> function turns them into
  frames and stops at the first that fails.\<close>

fun load_all :: "response list \<Rightarrow> error + dataframe list" where
  "load_all [] = Inr []"
| "load_all (r # rs) =
     and_then (load_dataframe r) (\<lambda>df.
     and_then (load_all rs) (\<lambda>dfs. Inr (df # dfs)))"

text \<open>Lines 157 to 161 (and 232 to 236, 304 to 308).\<close>

definition reorder :: "dataframe \<Rightarrow> error + dataframe" where
  "reorder df =
     (let remaining_columns = filter (\<lambda>col. col \<notin> set DESIRED_COLUMNS) (columns df);
          new_order = DESIRED_COLUMNS @ remaining_columns
      in select_columns df new_order)"

text \<open>The three cleaning functions differ in their dictionary only.\<close>

definition clean_data :: "(string \<times> string) list \<Rightarrow> response list \<Rightarrow> error + dataframe" where
  "clean_data dictionary responses =
     and_then (load_all responses) (\<lambda>dataframes.
     and_then (pd_concat (map (rename_columns dictionary) dataframes)) (\<lambda>compiled.
     and_then (add_geo_id compiled ''state'' ''county'' ''tract'') (\<lambda>with_geo_id.
     and_then (preprocess_name_column with_geo_id) reorder)))"

definition clean_population_distribution_data :: "response list \<Rightarrow> error + dataframe" where
  "clean_population_distribution_data responses = clean_data dp_dictionary responses"

definition clean_housing_characteristics_data :: "response list \<Rightarrow> error + dataframe" where
  "clean_housing_characteristics_data responses = clean_data dhc_variable_dictionary responses"

definition clean_community_resilience_data :: "response list \<Rightarrow> error + dataframe" where
  "clean_community_resilience_data responses = clean_data cre_dictionary responses"

subsection \<open>Lines 312 to 348: the merge\<close>

text \<open>
  \<^verbatim>\<open>pd.merge(left, right, on=keys, how="outer")\<close>. A row of the left frame and a row of
  the right frame are joined when their key cells match, column by column; missing values
  match each other. A left row without match is kept with \<^verbatim>\<open>NaN\<close> in the columns of the
  right frame, and a right row without match with \<^verbatim>\<open>NaN\<close> in the columns of the left
  frame and its own key. The result has the columns of the left frame, then the columns
  of the right frame that are not keys; a label outside the keys that both frames have
  gets the suffixes \<^verbatim>\<open>_x\<close> and \<^verbatim>\<open>_y\<close>. A key that is not a column of both frames raises
  \<^verbatim>\<open>KeyError\<close>. The rows are listed here as: the left rows, each with its matches, then
  the right rows without a match; pandas sorts them by key. No property below depends on
  the order of the rows.
\<close>

fun is_missing :: "cell \<Rightarrow> bool" where
  "is_missing (Str s) = False"
| "is_missing PyNone = True"
| "is_missing NaN = True"

definition cell_match :: "cell \<Rightarrow> cell \<Rightarrow> bool" where
  "cell_match a b = (a = b \<or> (is_missing a \<and> is_missing b))"

definition key_match :: "cell list \<Rightarrow> cell list \<Rightarrow> bool" where
  "key_match k1 k2 = list_all2 cell_match k1 k2"

text \<open>The cell of a column at a row, and the key of a row.\<close>

definition cell_at :: "dataframe \<Rightarrow> string \<Rightarrow> nat \<Rightarrow> cell" where
  "cell_at df label i = column_or_nan label df ! i"

definition row_key :: "dataframe \<Rightarrow> string list \<Rightarrow> nat \<Rightarrow> cell list" where
  "row_key df keys i = map (\<lambda>k. cell_at df k i) keys"

definition row_keys :: "dataframe \<Rightarrow> string list \<Rightarrow> cell list list" where
  "row_keys df keys = map (row_key df keys) [0..<nrows df]"

definition join_pairs :: "cell list list \<Rightarrow> cell list list \<Rightarrow> (nat option \<times> nat option) list"
where
  "join_pairs lk rk =
     concat (map (\<lambda>i. let ms = filter (\<lambda>j. key_match (lk ! i) (rk ! j)) [0..<length rk]
                        in if ms = [] then [(Some i, None)]
                           else map (\<lambda>j. (Some i, Some j)) ms)
                 [0..<length lk])
     @ map (\<lambda>j. (None, Some j))
         (filter (\<lambda>j. \<not> list_ex (\<lambda>k. key_match k (rk ! j)) lk) [0..<length rk])"

definition take_rows :: "cell list \<Rightarrow> nat option list \<Rightarrow> cell list" where
  "take_rows values idx = map (\<lambda>a. case a of Some i \<Rightarrow> values ! i | None \<Rightarrow> NaN) idx"

definition take_key ::
  "cell list \<Rightarrow> cell list \<Rightarrow> (nat option \<times> nat option) list \<Rightarrow> cell list"
where
  "take_key left_values right_values pairs =
     map (\<lambda>p. case fst p of
                 Some i \<Rightarrow> left_values ! i
               | None \<Rightarrow> (case snd p of Some j \<Rightarrow> right_values ! j | None \<Rightarrow> NaN))
       pairs"

definition pd_merge :: "dataframe \<Rightarrow> dataframe \<Rightarrow> string list \<Rightarrow> error + dataframe" where
  "pd_merge left right keys =
     (if \<not> (list_all (\<lambda>k. k \<in> set (columns left)) keys
            \<and> list_all (\<lambda>k. k \<in> set (columns right)) keys)
      then Inl KeyError
      else
        let pairs = join_pairs (row_keys left keys) (row_keys right keys);
            overlap = filter (\<lambda>c. c \<notin> set keys \<and> c \<in> set (columns right)) (columns left)
        in Inr \<lparr>nrows = length pairs,
                cols =
                  map (\<lambda>c. if fst c \<in> set keys
                            then (fst c, take_key (snd c) (column_or_nan (fst c) right) pairs)
                            else (if fst c \<in> set overlap then fst c @ ''_x'' else fst c,
                                  take_rows (snd c) (map fst pairs)))
                      (cols left)
                  @ map (\<lambda>c. (if fst c \<in> set overlap then fst c @ ''_y'' else fst c,
                               take_rows (snd c) (map snd pairs)))
                      (filter (\<lambda>c. fst c \<notin> set keys) (cols right))\<rparr>)"

definition merge_keys :: "string list" where
  "merge_keys = [''geo_id'', ''state'', ''State_Name'', ''county'', ''County_Name'', ''tract'']"

text \<open>Lines 332 to 344: the two merges of the three cleaned frames.\<close>

definition merge_cleaned :: "dataframe \<Rightarrow> dataframe \<Rightarrow> dataframe \<Rightarrow> error + dataframe" where
  "merge_cleaned dp_dataframe dhc_dataframe cre_dataframe =
     and_then (pd_merge dp_dataframe dhc_dataframe merge_keys) (\<lambda>merge_dp_and_dhc.
       pd_merge merge_dp_and_dhc cre_dataframe merge_keys)"

text \<open>Lines 327 to 348; the result is the frame that is written to
  \<^verbatim>\<open>census_data.csv\<close>.\<close>

definition process_census_data_to_csv ::
  "response list \<Rightarrow> response list \<Rightarrow> response list \<Rightarrow> error + dataframe"
where
  "process_census_data_to_csv dp_responses dhc_responses cre_responses =
     and_then (clean_population_distribution_data dp_responses) (\<lambda>dp_dataframe.
     and_then (clean_housing_characteristics_data dhc_responses) (\<lambda>dhc_dataframe.
     and_then (clean_community_resilience_data cre_responses) (\<lambda>cre_dataframe.
       merge_cleaned dp_dataframe dhc_dataframe cre_dataframe)))"

subsection \<open>Well-formed frames\<close>

text \<open>Every column of a frame has one cell for each row.\<close>

definition df_ok :: "dataframe \<Rightarrow> bool" where
  "df_ok df = list_all (\<lambda>c. length (snd c) = nrows df) (cols df)"

text \<open>A combined name of the form \<^verbatim>\<open><tract>; <county>; <state>\<close>: a string that the
  separator splits into three pieces.\<close>

fun has_three_parts :: "cell \<Rightarrow> bool" where
  "has_three_parts (Str s) = (length (split s ''; '') = 3)"
| "has_three_parts PyNone = False"
| "has_three_parts NaN = False"

text \<open>The frame that lines 55 to 64 build from a frame and its \<^verbatim>\<open>NAME\<close> column when the
  assignment of line 55 does not raise.\<close>

definition split_result :: "dataframe \<Rightarrow> cell list \<Rightarrow> dataframe" where
  "split_result df name =
     (let expanded = map (expand_row 3) (map split_cell name);
          df3 = setitem (setitem (setitem df ''Census_Tract'' (map (\<lambda>r. r ! 0) expanded))
                   ''County_Name'' (map (\<lambda>r. r ! 1) expanded))
                   ''State_Name'' (map (\<lambda>r. r ! 2) expanded);
          df4 = df3\<lparr>cols := filter (\<lambda>c. fst c \<notin> set [''Census_Tract'', ''NAME'']) (cols df3)\<rparr>
      in setitem (setitem df4 ''State_Name'' (map strip_cell (map (\<lambda>r. r ! 2) expanded)))
           ''County_Name'' (map strip_cell (map (\<lambda>r. r ! 1) expanded)))"

text \<open>The labels outside the keys that the left frame has are not labels of the right
  frame: the case in which no suffix is given. The three dictionaries lead to it.\<close>

definition no_overlap :: "dataframe \<Rightarrow> dataframe \<Rightarrow> string list \<Rightarrow> bool" where
  "no_overlap left right keys =
     list_all (\<lambda>c. c \<in> set keys \<or> c \<notin> set (columns right)) (columns left)"

text \<open>No row of a frame has a key that matches the given key.\<close>

definition key_absent :: "cell list \<Rightarrow> dataframe \<Rightarrow> string list \<Rightarrow> bool" where
  "key_absent key df keys =
     list_all (\<lambda>j. \<not> key_match key (row_key df keys j)) [0..<nrows df]"

section \<open>Properties of the pipeline\<close>

subsection \<open>Frames\<close>

lemma and_then_simps [simp]:
  "and_then (Inr x) f = f x" "and_then (Inl e) f = Inl e"
  by (simp_all add: and_then_def)

lemma map_of_update_col:
  "map_of (update_col l v cs) l' = (if l' = l then Some v else map_of cs l')"
  by (induction cs) auto

lemma getitem_setitem:
  "getitem (setitem df l v) l' = (if l' = l then Inr v else getitem df l')"
  by (simp add: getitem_def setitem_def map_of_update_col)

lemma map_fst_update_col:
  "map fst (update_col l v cs) = (if l \<in> fst ` set cs then map fst cs else map fst cs @ [l])"
  by (induction cs) auto

lemma columns_setitem:
  "columns (setitem df l v) = (if l \<in> set (columns df) then columns df else columns df @ [l])"
  by (simp add: columns_def setitem_def map_fst_update_col)

lemma nrows_setitem [simp]: "nrows (setitem df l v) = nrows df"
  by (simp add: setitem_def)

lemma getitem_Inr_mem: "getitem df l = Inr vs \<Longrightarrow> (l, vs) \<in> set (cols df)"
  by (auto simp: getitem_def split: option.splits dest: map_of_SomeD)

lemma getitem_Inr_columns: "getitem df l = Inr vs \<Longrightarrow> l \<in> set (columns df)"
  by (auto simp: columns_def dest!: getitem_Inr_mem intro: rev_image_eqI)

lemma columns_getitem: "l \<in> set (columns df) \<Longrightarrow> \<exists>vs. getitem df l = Inr vs"
  by (cases "map_of (cols df) l") (auto simp: getitem_def columns_def map_of_eq_None_iff)

lemma getitem_length: "df_ok df \<Longrightarrow> getitem df l = Inr vs \<Longrightarrow> length vs = nrows df"
  by (auto simp: df_ok_def list_all_iff dest!: getitem_Inr_mem)

lemma nth_add_series:
  "i < length xs \<Longrightarrow> i < length ys \<Longrightarrow>
     add_series xs ys ! i = Str (py_str (xs ! i) @ py_str (ys ! i))"
  by (simp add: add_series_def)

lemma length_add_series [simp]: "length (add_series xs ys) = min (length xs) (length ys)"
  by (simp add: add_series_def)

lemma length_astype_str [simp]: "length (astype_str vs) = length vs"
  by (simp add: astype_str_def)

lemma nth_astype_str: "i < length vs \<Longrightarrow> astype_str vs ! i = Str (py_str (vs ! i))"
  by (simp add: astype_str_def)

subsection \<open>The identifier\<close>

text \<open>
  C6. For a well-formed frame that has the three code columns, none of them called
  \<^verbatim>\<open>geo_id\<close>, \<^verbatim>\<open>add_geo_id\<close> returns a frame in which the three code columns hold
  strings and, in every row, \<^verbatim>\<open>geo_id\<close> is the state code followed by the county code
  followed by the tract code, with nothing between them; its length is the sum of the
  three lengths.
\<close>

theorem C6_geo_id_is_concatenation:
  assumes "df_ok df"
    and "state_column \<in> set (columns df)" and "county_column \<in> set (columns df)"
    and "tract_column \<in> set (columns df)"
    and "''geo_id'' \<notin> {state_column, county_column, tract_column}"
  shows "\<exists>df' state county tract geo_id.
           add_geo_id df state_column county_column tract_column = Inr df'
           \<and> getitem df' state_column = Inr state
           \<and> getitem df' county_column = Inr county
           \<and> getitem df' tract_column = Inr tract
           \<and> getitem df' ''geo_id'' = Inr geo_id
           \<and> length geo_id = nrows df
           \<and> (\<forall>i<nrows df. \<exists>s c t. state ! i = Str s \<and> county ! i = Str c \<and> tract ! i = Str t
                 \<and> geo_id ! i = Str (s @ c @ t)
                 \<and> length (py_str (geo_id ! i)) = length s + length c + length t)"
proof -
  from assms obtain s0 c0 t0 where
    g: "getitem df state_column = Inr s0" "getitem df county_column = Inr c0"
       "getitem df tract_column = Inr t0"
    by (meson columns_getitem)
  with assms(1) have len: "length s0 = nrows df" "length c0 = nrows df" "length t0 = nrows df"
    by (simp_all add: getitem_length)
  define df1 where "df1 = setitem df state_column (astype_str s0)"
  have "\<exists>c1. getitem df1 county_column = Inr c1 \<and> length c1 = nrows df"
    using g len by (simp add: df1_def getitem_setitem)
  then obtain c1 where c1: "getitem df1 county_column = Inr c1" "length c1 = nrows df"
    by blast
  define df2 where "df2 = setitem df1 county_column (astype_str c1)"
  have "\<exists>t1. getitem df2 tract_column = Inr t1 \<and> length t1 = nrows df"
    using g len c1 by (simp add: df2_def df1_def getitem_setitem)
  then obtain t1 where t1: "getitem df2 tract_column = Inr t1" "length t1 = nrows df"
    by blast
  define df3 where "df3 = setitem df2 tract_column (astype_str t1)"
  have "\<exists>state. getitem df3 state_column = Inr state \<and> length state = nrows df
     \<and> (\<forall>i<nrows df. \<exists>s. state ! i = Str s)"
    using g len c1 t1
    by (simp add: df3_def df2_def df1_def getitem_setitem nth_astype_str)
  then obtain state where st: "getitem df3 state_column = Inr state" "length state = nrows df"
     "\<forall>i<nrows df. \<exists>s. state ! i = Str s"
    by blast
  have "\<exists>county. getitem df3 county_column = Inr county \<and> length county = nrows df
     \<and> (\<forall>i<nrows df. \<exists>s. county ! i = Str s)"
    using g len c1 t1
    by (simp add: df3_def df2_def getitem_setitem nth_astype_str)
  then obtain county where co: "getitem df3 county_column = Inr county"
     "length county = nrows df" "\<forall>i<nrows df. \<exists>s. county ! i = Str s"
    by blast
  have "\<exists>tract. getitem df3 tract_column = Inr tract \<and> length tract = nrows df
     \<and> (\<forall>i<nrows df. \<exists>s. tract ! i = Str s)"
    using g len c1 t1
    by (simp add: df3_def getitem_setitem nth_astype_str)
  then obtain tract where tr: "getitem df3 tract_column = Inr tract" "length tract = nrows df"
     "\<forall>i<nrows df. \<exists>s. tract ! i = Str s"
    by blast
  define geo where "geo = add_series (add_series state county) tract"
  define df' where "df' = setitem df3 ''geo_id'' geo"
  have run: "add_geo_id df state_column county_column tract_column = Inr df'"
    using g c1 t1 st co tr
    by (simp add: add_geo_id_def Let_def df1_def [symmetric] df2_def [symmetric]
          df3_def [symmetric] geo_def df'_def)
  have gs: "getitem df' state_column = Inr state" "getitem df' county_column = Inr county"
    "getitem df' tract_column = Inr tract" "getitem df' ''geo_id'' = Inr geo"
    using assms(5) st co tr by (auto simp: df'_def getitem_setitem)
  have lg: "length geo = nrows df" using st co tr by (simp add: geo_def)
  have "\<exists>s c t. state ! i = Str s \<and> county ! i = Str c \<and> tract ! i = Str t
                 \<and> geo ! i = Str (s @ c @ t)
                 \<and> length (py_str (geo ! i)) = length s + length c + length t"
    if "i < nrows df" for i
  proof -
    from that st co tr obtain s c t where
      e: "state ! i = Str s" "county ! i = Str c" "tract ! i = Str t" by blast
    with that st co tr have "geo ! i = Str (s @ c @ t)"
      by (simp add: geo_def nth_add_series)
    with e show ?thesis by simp
  qed
  with run gs lg show ?thesis by blast
qed

theorem C6_geo_id_is_concatenation_witness:
  "add_geo_id \<lparr>nrows = 2, cols = [(''tract'', [Str ''000100'', Str ''000200'']),
                                     (''state'', [Str ''06'', Str ''17'']),
                                     (''county'', [Str ''001'', Str ''031''])]\<rparr>
      ''state'' ''county'' ''tract''
   = Inr \<lparr>nrows = 2, cols = [(''tract'', [Str ''000100'', Str ''000200'']),
                               (''state'', [Str ''06'', Str ''17'']),
                               (''county'', [Str ''001'', Str ''031'']),
                               (''geo_id'', [Str ''06001000100'', Str ''17031000200''])]\<rparr>"
  using C6_geo_id_is_concatenation
          [of "\<lparr>nrows = 2, cols = [(''tract'', [Str ''000100'', Str ''000200'']),
                                     (''state'', [Str ''06'', Str ''17'']),
                                     (''county'', [Str ''001'', Str ''031''])]\<rparr>"
              "''state''" "''county''" "''tract''"]
  by (simp add: add_geo_id_def getitem_def setitem_def astype_str_def add_series_def
        df_ok_def columns_def)

subsection \<open>The split of the name\<close>

lemma width_Max: "width rows = Max (insert 0 (length ` set rows))"
  using Max.set_eq_fold [of 0 "map length rows"] by (simp add: width_def)

lemma width_le_iff: "width rows \<le> n \<longleftrightarrow> (\<forall>r\<in>set rows. length r \<le> n)"
  by (simp add: width_Max)

lemma width_attained: "rows \<noteq> [] \<Longrightarrow> \<exists>r\<in>set rows. length r = width rows"
proof -
  assume ne: "rows \<noteq> []"
  have "Max (insert 0 (length ` set rows)) \<in> insert 0 (length ` set rows)"
    by (rule Max_in) simp_all
  then consider "width rows = 0" | "width rows \<in> length ` set rows"
    by (auto simp: width_Max)
  then show ?thesis
  proof cases
    case 1
    then have "\<forall>r\<in>set rows. length r \<le> 0" using width_le_iff [of rows 0] by simp
    with ne 1 show ?thesis by (cases rows) auto
  next
    case 2
    then show ?thesis by auto
  qed
qed

lemma width_eq_iff:
  "0 < n \<Longrightarrow> width rows = n \<longleftrightarrow> (\<forall>r\<in>set rows. length r \<le> n) \<and> (\<exists>r\<in>set rows. length r = n)"
proof
  assume n: "0 < n" and w: "width rows = n"
  then have "rows \<noteq> []" by (auto simp: width_def)
  with w show "(\<forall>r\<in>set rows. length r \<le> n) \<and> (\<exists>r\<in>set rows. length r = n)"
    using width_le_iff [of rows n] width_attained [of rows] by auto
next
  assume "(\<forall>r\<in>set rows. length r \<le> n) \<and> (\<exists>r\<in>set rows. length r = n)"
  then have "width rows \<le> n" "\<exists>r\<in>set rows. n \<le> length r"
    by (auto simp: width_le_iff)
  moreover have "\<forall>r\<in>set rows. length r \<le> width rows"
    using width_le_iff [of rows "width rows"] by simp
  ultimately show "width rows = n" by fastforce
qed

lemma map_of_filter_fst:
  "map_of (filter (\<lambda>c. P (fst c)) cs) l = (if P l then map_of cs l else None)"
  by (induction cs) auto

lemma drop_columns_Inr:
  "set labels \<subseteq> set (columns df) \<Longrightarrow>
     drop_columns df labels = Inr (df\<lparr>cols := filter (\<lambda>c. fst c \<notin> set labels) (cols df)\<rparr>)"
  by (auto simp: drop_columns_def list_all_iff)

lemma getitem_drop:
  "getitem (df\<lparr>cols := filter (\<lambda>c. fst c \<notin> set labels) (cols df)\<rparr>) l
     = (if l \<in> set labels then Inl KeyError else getitem df l)"
  using map_of_filter_fst [of "\<lambda>l. l \<notin> set labels" "cols df" l]
  by (simp add: getitem_def)

lemma columns_drop:
  "columns (df\<lparr>cols := filter (\<lambda>c. fst c \<notin> set labels) (cols df)\<rparr>)
     = filter (\<lambda>l. l \<notin> set labels) (columns df)"
  by (simp add: columns_def filter_map comp_def)

lemma preprocess_name_column_cases:
  assumes "getitem df ''NAME'' = Inr name"
  shows "preprocess_name_column df =
          (if width (map split_cell name) \<noteq> 3 then Inl ValueError
           else Inr (split_result df name))"
proof (cases "width (map split_cell name) = 3")
  case False
  with assms show ?thesis by (simp add: preprocess_name_column_def)
next
  case True
  let ?expanded = "map (expand_row 3) (map split_cell name)"
  let ?df3 = "setitem (setitem (setitem df ''Census_Tract'' (map (\<lambda>r. r ! 0) ?expanded))
                   ''County_Name'' (map (\<lambda>r. r ! 1) ?expanded))
                   ''State_Name'' (map (\<lambda>r. r ! 2) ?expanded)"
  let ?df4 = "?df3\<lparr>cols := filter (\<lambda>c. fst c \<notin> set [''Census_Tract'', ''NAME''])
                               (cols ?df3)\<rparr>"
  from assms have "''NAME'' \<in> set (columns df)" by (rule getitem_Inr_columns)
  then have "set [''Census_Tract'', ''NAME''] \<subseteq> set (columns ?df3)"
    by (simp add: columns_setitem)
  then have d: "drop_columns ?df3 [''Census_Tract'', ''NAME''] = Inr ?df4"
    by (rule drop_columns_Inr)
  have s: "getitem ?df4 ''State_Name'' = Inr (map (\<lambda>r. r ! 2) ?expanded)"
    unfolding getitem_drop by (simp add: getitem_setitem)
  have c: "getitem (setitem ?df4 ''State_Name'' (map strip_cell (map (\<lambda>r. r ! 2) ?expanded)))
             ''County_Name'' = Inr (map (\<lambda>r. r ! 1) ?expanded)"
    unfolding getitem_setitem getitem_drop by (simp add: getitem_setitem)
  have "preprocess_name_column df = Inr (split_result df name)"
    unfolding preprocess_name_column_def split_result_def Let_def
    by (simp only: assms True d s c and_then_simps simp_thms if_False)
  with True show ?thesis by simp
qed

lemma columns_setitem_present:
  "l \<in> set (columns df) \<Longrightarrow> columns (setitem df l v) = columns df"
  by (simp add: columns_setitem)


lemma mem_columns_setitem: "l \<in> set (columns (setitem df l v))"
  by (simp add: columns_setitem)

lemma mem_columns_setitem_other:
  "l' \<in> set (columns df) \<Longrightarrow> l' \<in> set (columns (setitem df l v))"
  by (simp add: columns_setitem)

lemma length_three: "length xs = 3 \<Longrightarrow> \<exists>a b c. xs = [a, b, c]"
  by (auto simp: numeral_3_eq_3 length_Suc_conv)

lemma columns_split_result:
  "\<exists>a b c. columns (split_result df name)
            = filter (\<lambda>l. l \<notin> set [''Census_Tract'', ''NAME''])
                (columns (setitem (setitem (setitem df ''Census_Tract'' a) ''County_Name'' b)
                   ''State_Name'' c))"
proof -
  let ?expanded = "map (expand_row 3) (map split_cell name)"
  let ?df1 = "setitem df ''Census_Tract'' (map (\<lambda>r. r ! 0) ?expanded)"
  let ?df2 = "setitem ?df1 ''County_Name'' (map (\<lambda>r. r ! 1) ?expanded)"
  let ?df3 = "setitem ?df2 ''State_Name'' (map (\<lambda>r. r ! 2) ?expanded)"
  let ?df4 = "?df3\<lparr>cols := filter (\<lambda>c. fst c \<notin> set [''Census_Tract'', ''NAME''])
                               (cols ?df3)\<rparr>"
  let ?df5 = "setitem ?df4 ''State_Name'' (map strip_cell (map (\<lambda>r. r ! 2) ?expanded))"
  have c4: "columns ?df4 = filter (\<lambda>l. l \<notin> set [''Census_Tract'', ''NAME'']) (columns ?df3)"
    by (rule columns_drop)
  have "''State_Name'' \<in> set (columns ?df3)" by (rule mem_columns_setitem)
  with c4 have "''State_Name'' \<in> set (columns ?df4)" by simp
  then have c5: "columns ?df5 = columns ?df4" by (rule columns_setitem_present)
  have "''County_Name'' \<in> set (columns ?df2)" by (rule mem_columns_setitem)
  then have "''County_Name'' \<in> set (columns ?df3)" by (rule mem_columns_setitem_other)
  with c4 c5 have "''County_Name'' \<in> set (columns ?df5)" by simp
  then have "columns (setitem ?df5 ''County_Name''
                 (map strip_cell (map (\<lambda>r. r ! 1) ?expanded))) = columns ?df5"
    by (rule columns_setitem_present)
  with c4 c5 have "columns (split_result df name)
      = filter (\<lambda>l. l \<notin> set [''Census_Tract'', ''NAME'']) (columns ?df3)"
    unfolding split_result_def Let_def by (simp only:)
  then show ?thesis by (intro exI)
qed


lemma not_mem_columns_split_result:
  "''NAME'' \<notin> set (columns (split_result df name))"
  "''Census_Tract'' \<notin> set (columns (split_result df name))"
proof -
  from columns_split_result [of df name] obtain a b c where
    e: "columns (split_result df name)
            = filter (\<lambda>l. l \<notin> set [''Census_Tract'', ''NAME''])
                (columns (setitem (setitem (setitem df ''Census_Tract'' a) ''County_Name'' b)
                   ''State_Name'' c))"
    by blast
  show "''NAME'' \<notin> set (columns (split_result df name))" unfolding e by simp
  show "''Census_Tract'' \<notin> set (columns (split_result df name))" unfolding e by simp
qed

lemma getitem_split_result:
  "getitem (split_result df name) ''County_Name''
      = Inr (map strip_cell (map (\<lambda>r. r ! 1) (map (expand_row 3) (map split_cell name))))"
  "getitem (split_result df name) ''State_Name''
      = Inr (map strip_cell (map (\<lambda>r. r ! 2) (map (expand_row 3) (map split_cell name))))"
  unfolding split_result_def Let_def getitem_setitem by simp_all

lemma getitem_split_result_other:
  assumes "l \<notin> {''NAME'', ''Census_Tract'', ''County_Name'', ''State_Name''}"
  shows "getitem (split_result df name) l = getitem df l"
  using assms unfolding split_result_def Let_def getitem_setitem getitem_drop
  by simp
text \<open>
  C2, as the claim states it: the three name fields, the tract name among them, are in the
  normalized record. The frame with the single name \<^verbatim>\<open>A; B; C\<close> comes out with the two
  columns \<^verbatim>\<open>County_Name\<close> and \<^verbatim>\<open>State_Name\<close>; the tract name \<^verbatim>\<open>A\<close> is in no column.
\<close>

theorem C2_tract_name_is_dropped:
  "preprocess_name_column \<lparr>nrows = 1, cols = [(''NAME'', [Str ''A; B; C''])]\<rparr>
   = Inr \<lparr>nrows = 1, cols = [(''County_Name'', [Str ''B'']), (''State_Name'', [Str ''C''])]\<rparr>"
  by code_simp

text \<open>
  C2, amended. For a frame with at least one row whose names all split into three parts:
  the step returns a frame without the columns \<^verbatim>\<open>NAME\<close> and \<^verbatim>\<open>Census_Tract\<close>, in which
  \<^verbatim>\<open>County_Name\<close> and \<^verbatim>\<open>State_Name\<close> hold, row by row, the second and the third part of
  the name without the white space at their ends; every other column is as it was.
\<close>

theorem C2_county_and_state_are_kept:
  assumes "getitem df ''NAME'' = Inr name" and "name \<noteq> []"
    and "list_all has_three_parts name"
  shows "\<exists>df' county_name state_name.
           preprocess_name_column df = Inr df'
           \<and> ''NAME'' \<notin> set (columns df') \<and> ''Census_Tract'' \<notin> set (columns df')
           \<and> getitem df' ''County_Name'' = Inr county_name
           \<and> getitem df' ''State_Name'' = Inr state_name
           \<and> length county_name = length name \<and> length state_name = length name
           \<and> (\<forall>i<length name. \<exists>s tract county state.
                 name ! i = Str s \<and> split s ''; '' = [tract, county, state]
                 \<and> county_name ! i = Str (strip county)
                 \<and> state_name ! i = Str (strip state))
           \<and> (\<forall>l. l \<notin> {''NAME'', ''Census_Tract'', ''County_Name'', ''State_Name''} \<longrightarrow>
                 getitem df' l = getitem df l)"
proof -
  let ?cn = "map strip_cell (map (\<lambda>r. r ! 1) (map (expand_row 3) (map split_cell name)))"
  let ?sn = "map strip_cell (map (\<lambda>r. r ! 2) (map (expand_row 3) (map split_cell name)))"
  have three: "\<exists>s tract county state. v = Str s \<and> split s ''; '' = [tract, county, state]"
    if "v \<in> set name" for v
  proof -
    from that assms(3) have "has_three_parts v" by (simp add: list_all_iff)
    then obtain s where s: "v = Str s" "length (split s ''; '') = 3" by (cases v) auto
    from length_three [OF s(2)] s(1) show ?thesis by blast
  qed
  then have len: "\<forall>v\<in>set name. length (split_cell v) = 3" by fastforce
  from assms(2) obtain v where "v \<in> set name" by (cases name) auto
  with len have "width (map split_cell name) = 3"
    using width_eq_iff [of 3 "map split_cell name"] by auto
  then have run: "preprocess_name_column df = Inr (split_result df name)"
    using preprocess_name_column_cases [OF assms(1)] by simp
  note cols = not_mem_columns_split_result [of df name]
  have rows: "\<exists>s tract county state.
                 name ! i = Str s \<and> split s ''; '' = [tract, county, state]
                 \<and> ?cn ! i = Str (strip county) \<and> ?sn ! i = Str (strip state)"
    if "i < length name" for i
  proof -
    from that have "name ! i \<in> set name" by simp
    from three [OF this] obtain s a b c where
      e: "name ! i = Str s" "split s ''; '' = [a, b, c]" by blast
    with that show ?thesis by (simp add: expand_row_def pad_row_def)
  qed
  have main: "preprocess_name_column df = Inr (split_result df name)
           \<and> ''NAME'' \<notin> set (columns (split_result df name))
           \<and> ''Census_Tract'' \<notin> set (columns (split_result df name))
           \<and> getitem (split_result df name) ''County_Name'' = Inr ?cn
           \<and> getitem (split_result df name) ''State_Name'' = Inr ?sn
           \<and> length ?cn = length name \<and> length ?sn = length name
           \<and> (\<forall>i<length name. \<exists>s tract county state.
                 name ! i = Str s \<and> split s ''; '' = [tract, county, state]
                 \<and> ?cn ! i = Str (strip county)
                 \<and> ?sn ! i = Str (strip state))
           \<and> (\<forall>l. l \<notin> {''NAME'', ''Census_Tract'', ''County_Name'', ''State_Name''} \<longrightarrow>
                 getitem (split_result df name) l = getitem df l)"
  proof (intro conjI allI impI)
    show "preprocess_name_column df = Inr (split_result df name)" by (rule run)
    show "''NAME'' \<notin> set (columns (split_result df name))" by (rule cols)
    show "''Census_Tract'' \<notin> set (columns (split_result df name))" by (rule cols)
    show "getitem (split_result df name) ''County_Name'' = Inr ?cn"
      by (rule getitem_split_result)
    show "getitem (split_result df name) ''State_Name'' = Inr ?sn"
      by (rule getitem_split_result)
    show "length ?cn = length name" by simp
    show "length ?sn = length name" by simp
    show "\<exists>s tract county state.
                 name ! i = Str s \<and> split s ''; '' = [tract, county, state]
                 \<and> ?cn ! i = Str (strip county) \<and> ?sn ! i = Str (strip state)"
      if "i < length name" for i using that by (rule rows)
    show "getitem (split_result df name) l = getitem df l"
      if "l \<notin> {''NAME'', ''Census_Tract'', ''County_Name'', ''State_Name''}" for l
      using that by (rule getitem_split_result_other)
  qed
  show ?thesis
    by (rule exI [of _ "split_result df name"], rule exI [of _ ?cn], rule exI [of _ ?sn])
      (rule main)
qed

theorem C2_county_and_state_are_kept_witness:
  "preprocess_name_column
     \<lparr>nrows = 2, cols = [(''NAME'', [Str ''Tract 1;  County X ; State Y'', Str ''A; B; C'']),
                          (''v'', [Str ''1'', Str ''2''])]\<rparr>
   = Inr \<lparr>nrows = 2, cols = [(''v'', [Str ''1'', Str ''2'']),
                               (''County_Name'', [Str ''County X'', Str ''B'']),
                               (''State_Name'', [Str ''State Y'', Str ''C''])]\<rparr>"
proof -
  have e: "preprocess_name_column
     \<lparr>nrows = 2, cols = [(''NAME'', [Str ''Tract 1;  County X ; State Y'', Str ''A; B; C'']),
                          (''v'', [Str ''1'', Str ''2''])]\<rparr>
   = Inr \<lparr>nrows = 2, cols = [(''v'', [Str ''1'', Str ''2'']),
                               (''County_Name'', [Str ''County X'', Str ''B'']),
                               (''State_Name'', [Str ''State Y'', Str ''C''])]\<rparr>"
    by code_simp
  have h1: "getitem \<lparr>nrows = 2, cols = [(''NAME'', [Str ''Tract 1;  County X ; State Y'', Str ''A; B; C'']),
                          (''v'', [Str ''1'', Str ''2''])]\<rparr> ''NAME''
            = Inr [Str ''Tract 1;  County X ; State Y'', Str ''A; B; C'']"
    by (simp add: getitem_def)
  have h2: "[Str ''Tract 1;  County X ; State Y'', Str ''A; B; C''] \<noteq> []" by simp
  have h3: "list_all has_three_parts [Str ''Tract 1;  County X ; State Y'', Str ''A; B; C'']"
    by code_simp
  from C2_county_and_state_are_kept [OF h1 h2 h3] e show ?thesis by simp
qed

text \<open>The county and the state of one row of the expanded frame, after the strip of
  lines 63 and 64.\<close>

lemma nth_expand_row_county:
  "strip_cell (expand_row 3 (split_cell v) ! 1)
     = (case v of
          Str s \<Rightarrow> if 1 < length (split s ''; '') then Str (strip (split s ''; '' ! 1))
                   else PyNone
        | PyNone \<Rightarrow> PyNone
        | NaN \<Rightarrow> NaN)"
proof (cases v)
  case (Str s)
  have n: "map Str (split s ''; '') \<noteq> [NaN]" by (cases "split s ''; ''") auto
  show ?thesis
    unfolding Str using n by (simp add: expand_row_def pad_row_def nth_append)
qed (simp_all add: expand_row_def pad_row_def numeral_3_eq_3)

lemma nth_expand_row_state:
  "strip_cell (expand_row 3 (split_cell v) ! 2)
     = (case v of
          Str s \<Rightarrow> if 2 < length (split s ''; '') then Str (strip (split s ''; '' ! 2))
                   else PyNone
        | PyNone \<Rightarrow> PyNone
        | NaN \<Rightarrow> NaN)"
proof (cases v)
  case (Str s)
  have n: "map Str (split s ''; '') \<noteq> [NaN]" by (cases "split s ''; ''") auto
  show ?thesis
    unfolding Str using n by (simp add: expand_row_def pad_row_def nth_append)
qed (simp_all add: expand_row_def pad_row_def numeral_3_eq_3)

text \<open>
  C3, as the claim states it: the step fails as soon as one row does not split into three
  parts. In the frame below the second name has two parts; the step returns a frame, the
  state name of that row missing.
\<close>

theorem C3_short_row_is_padded:
  "length (split ''A; B'' ''; '') = 2
   \<and> preprocess_name_column
       \<lparr>nrows = 2, cols = [(''NAME'', [Str ''A; B; C'', Str ''A; B''])]\<rparr>
     = Inr \<lparr>nrows = 2, cols = [(''County_Name'', [Str ''B'', Str ''B'']),
                                 (''State_Name'', [Str ''C'', PyNone])]\<rparr>"
  by code_simp

text \<open>
  C3, amended. For a frame with a \<^verbatim>\<open>NAME\<close> column: the step raises \<^verbatim>\<open>ValueError\<close> exactly
  when the largest number of parts of a name is not three, and returns a frame exactly
  when it is three; it is three when no name has more than three parts and some name has
  three. A missing name counts as one part. The frame that the step returns has neither
  \<^verbatim>\<open>NAME\<close> nor \<^verbatim>\<open>Census_Tract\<close>; its \<^verbatim>\<open>County_Name\<close> and \<^verbatim>\<open>State_Name\<close> hold, row by row,
  the second and the third part of the name without the white space at their ends, and
  \<^verbatim>\<open>None\<close> where the name has no such part; a missing name gives itself in both; every
  other column is as it was.
\<close>

theorem C3_split_fails_iff_width_not_three:
  assumes "getitem df ''NAME'' = Inr name"
  shows "(preprocess_name_column df = Inl ValueError \<longleftrightarrow> width (map split_cell name) \<noteq> 3)
     \<and> ((\<exists>df'. preprocess_name_column df = Inr df') \<longleftrightarrow> width (map split_cell name) = 3)
     \<and> (width (map split_cell name) = 3 \<longleftrightarrow>
          (\<forall>v\<in>set name. length (split_cell v) \<le> 3) \<and> (\<exists>v\<in>set name. length (split_cell v) = 3))
     \<and> (\<forall>df'. preprocess_name_column df = Inr df' \<longrightarrow>
          ''NAME'' \<notin> set (columns df') \<and> ''Census_Tract'' \<notin> set (columns df')
          \<and> (\<exists>county_name state_name.
                getitem df' ''County_Name'' = Inr county_name
                \<and> getitem df' ''State_Name'' = Inr state_name
                \<and> length county_name = length name \<and> length state_name = length name
                \<and> (\<forall>i<length name.
                      county_name ! i
                        = (case name ! i of
                             Str s \<Rightarrow> if 1 < length (split s ''; '')
                                      then Str (strip (split s ''; '' ! 1)) else PyNone
                           | PyNone \<Rightarrow> PyNone
                           | NaN \<Rightarrow> NaN)
                      \<and> state_name ! i
                        = (case name ! i of
                             Str s \<Rightarrow> if 2 < length (split s ''; '')
                                      then Str (strip (split s ''; '' ! 2)) else PyNone
                           | PyNone \<Rightarrow> PyNone
                           | NaN \<Rightarrow> NaN)))
          \<and> (\<forall>l. l \<notin> {''NAME'', ''Census_Tract'', ''County_Name'', ''State_Name''} \<longrightarrow>
                getitem df' l = getitem df l))"
proof -
  let ?cn = "map strip_cell (map (\<lambda>r. r ! 1) (map (expand_row 3) (map split_cell name)))"
  let ?sn = "map strip_cell (map (\<lambda>r. r ! 2) (map (expand_row 3) (map split_cell name)))"
  note run = preprocess_name_column_cases [OF assms]
  have A: "preprocess_name_column df = Inl ValueError \<longleftrightarrow> width (map split_cell name) \<noteq> 3"
    using run by auto
  have B: "(\<exists>df'. preprocess_name_column df = Inr df') \<longleftrightarrow> width (map split_cell name) = 3"
    using run by auto
  have C: "width (map split_cell name) = 3 \<longleftrightarrow>
          (\<forall>v\<in>set name. length (split_cell v) \<le> 3) \<and> (\<exists>v\<in>set name. length (split_cell v) = 3)"
    using width_eq_iff [of 3 "map split_cell name"] by auto
  have rows: "\<forall>i<length name.
                      ?cn ! i
                        = (case name ! i of
                             Str s \<Rightarrow> if 1 < length (split s ''; '')
                                      then Str (strip (split s ''; '' ! 1)) else PyNone
                           | PyNone \<Rightarrow> PyNone
                           | NaN \<Rightarrow> NaN)
                      \<and> ?sn ! i
                        = (case name ! i of
                             Str s \<Rightarrow> if 2 < length (split s ''; '')
                                      then Str (strip (split s ''; '' ! 2)) else PyNone
                           | PyNone \<Rightarrow> PyNone
                           | NaN \<Rightarrow> NaN)"
  proof (intro allI impI conjI)
    fix i
    assume i: "i < length name"
    then have "?cn ! i = strip_cell (expand_row 3 (split_cell (name ! i)) ! 1)" by simp
    then show "?cn ! i
                 = (case name ! i of
                      Str s \<Rightarrow> if 1 < length (split s ''; '')
                               then Str (strip (split s ''; '' ! 1)) else PyNone
                    | PyNone \<Rightarrow> PyNone
                    | NaN \<Rightarrow> NaN)"
      by (simp only: nth_expand_row_county)
    from i have "?sn ! i = strip_cell (expand_row 3 (split_cell (name ! i)) ! 2)" by simp
    then show "?sn ! i
                 = (case name ! i of
                      Str s \<Rightarrow> if 2 < length (split s ''; '')
                               then Str (strip (split s ''; '' ! 2)) else PyNone
                    | PyNone \<Rightarrow> PyNone
                    | NaN \<Rightarrow> NaN)"
      by (simp only: nth_expand_row_state)
  qed
  have two: "getitem (split_result df name) ''County_Name'' = Inr ?cn
                \<and> getitem (split_result df name) ''State_Name'' = Inr ?sn
                \<and> length ?cn = length name \<and> length ?sn = length name
                \<and> (\<forall>i<length name.
                      ?cn ! i
                        = (case name ! i of
                             Str s \<Rightarrow> if 1 < length (split s ''; '')
                                      then Str (strip (split s ''; '' ! 1)) else PyNone
                           | PyNone \<Rightarrow> PyNone
                           | NaN \<Rightarrow> NaN)
                      \<and> ?sn ! i
                        = (case name ! i of
                             Str s \<Rightarrow> if 2 < length (split s ''; '')
                                      then Str (strip (split s ''; '' ! 2)) else PyNone
                           | PyNone \<Rightarrow> PyNone
                           | NaN \<Rightarrow> NaN))"
  proof (intro conjI)
    show "getitem (split_result df name) ''County_Name'' = Inr ?cn"
      by (rule getitem_split_result)
    show "getitem (split_result df name) ''State_Name'' = Inr ?sn"
      by (rule getitem_split_result)
    show "length ?cn = length name" by simp
    show "length ?sn = length name" by simp
  qed (rule rows)
  have D: "\<forall>df'. preprocess_name_column df = Inr df' \<longrightarrow>
          ''NAME'' \<notin> set (columns df') \<and> ''Census_Tract'' \<notin> set (columns df')
          \<and> (\<exists>county_name state_name.
                getitem df' ''County_Name'' = Inr county_name
                \<and> getitem df' ''State_Name'' = Inr state_name
                \<and> length county_name = length name \<and> length state_name = length name
                \<and> (\<forall>i<length name.
                      county_name ! i
                        = (case name ! i of
                             Str s \<Rightarrow> if 1 < length (split s ''; '')
                                      then Str (strip (split s ''; '' ! 1)) else PyNone
                           | PyNone \<Rightarrow> PyNone
                           | NaN \<Rightarrow> NaN)
                      \<and> state_name ! i
                        = (case name ! i of
                             Str s \<Rightarrow> if 2 < length (split s ''; '')
                                      then Str (strip (split s ''; '' ! 2)) else PyNone
                           | PyNone \<Rightarrow> PyNone
                           | NaN \<Rightarrow> NaN)))
          \<and> (\<forall>l. l \<notin> {''NAME'', ''Census_Tract'', ''County_Name'', ''State_Name''} \<longrightarrow>
                getitem df' l = getitem df l)"
  proof (intro allI impI)
    fix df'
    assume "preprocess_name_column df = Inr df'"
    with run have e: "df' = split_result df name" by (auto split: if_splits)
    show "''NAME'' \<notin> set (columns df') \<and> ''Census_Tract'' \<notin> set (columns df')
          \<and> (\<exists>county_name state_name.
                getitem df' ''County_Name'' = Inr county_name
                \<and> getitem df' ''State_Name'' = Inr state_name
                \<and> length county_name = length name \<and> length state_name = length name
                \<and> (\<forall>i<length name.
                      county_name ! i
                        = (case name ! i of
                             Str s \<Rightarrow> if 1 < length (split s ''; '')
                                      then Str (strip (split s ''; '' ! 1)) else PyNone
                           | PyNone \<Rightarrow> PyNone
                           | NaN \<Rightarrow> NaN)
                      \<and> state_name ! i
                        = (case name ! i of
                             Str s \<Rightarrow> if 2 < length (split s ''; '')
                                      then Str (strip (split s ''; '' ! 2)) else PyNone
                           | PyNone \<Rightarrow> PyNone
                           | NaN \<Rightarrow> NaN)))
          \<and> (\<forall>l. l \<notin> {''NAME'', ''Census_Tract'', ''County_Name'', ''State_Name''} \<longrightarrow>
                getitem df' l = getitem df l)"
      unfolding e
    proof (intro conjI allI impI)
      show "''NAME'' \<notin> set (columns (split_result df name))"
        by (rule not_mem_columns_split_result)
      show "''Census_Tract'' \<notin> set (columns (split_result df name))"
        by (rule not_mem_columns_split_result)
      show "\<exists>county_name state_name.
                getitem (split_result df name) ''County_Name'' = Inr county_name
                \<and> getitem (split_result df name) ''State_Name'' = Inr state_name
                \<and> length county_name = length name \<and> length state_name = length name
                \<and> (\<forall>i<length name.
                      county_name ! i
                        = (case name ! i of
                             Str s \<Rightarrow> if 1 < length (split s ''; '')
                                      then Str (strip (split s ''; '' ! 1)) else PyNone
                           | PyNone \<Rightarrow> PyNone
                           | NaN \<Rightarrow> NaN)
                      \<and> state_name ! i
                        = (case name ! i of
                             Str s \<Rightarrow> if 2 < length (split s ''; '')
                                      then Str (strip (split s ''; '' ! 2)) else PyNone
                           | PyNone \<Rightarrow> PyNone
                           | NaN \<Rightarrow> NaN))"
        by (rule exI [of _ ?cn], rule exI [of _ ?sn]) (rule two)
      show "getitem (split_result df name) l = getitem df l"
        if "l \<notin> {''NAME'', ''Census_Tract'', ''County_Name'', ''State_Name''}" for l
        using that by (rule getitem_split_result_other)
    qed
  qed
  show ?thesis by (rule conjI [OF A conjI [OF B conjI [OF C D]]])
qed

text \<open>A frame with a name of four parts, and a frame whose names have three, two and one
  part and whose last name is missing.\<close>

theorem C3_split_fails_iff_width_not_three_witness:
  "preprocess_name_column
     \<lparr>nrows = 2, cols = [(''NAME'', [Str ''A; B; C'', Str ''A; B; C; D''])]\<rparr> = Inl ValueError
   \<and> width (map split_cell [Str ''A; B; C'', Str ''A; B; C; D'']) = 4
   \<and> width (map split_cell [Str ''T;  X ; Y'', Str ''T; X'', Str ''T'', PyNone]) = 3
   \<and> (\<exists>df'. preprocess_name_column
               \<lparr>nrows = 4, cols = [(''NAME'', [Str ''T;  X ; Y'', Str ''T; X'', Str ''T'', PyNone]),
                                    (''v'', [Str ''1'', Str ''2'', Str ''3'', Str ''4''])]\<rparr>
             = Inr df'
           \<and> getitem df' ''County_Name'' = Inr [Str ''X'', Str ''X'', PyNone, PyNone]
           \<and> getitem df' ''State_Name'' = Inr [Str ''Y'', PyNone, PyNone, PyNone]
           \<and> getitem df' ''v'' = Inr [Str ''1'', Str ''2'', Str ''3'', Str ''4'']
           \<and> columns df' = [''v'', ''County_Name'', ''State_Name''])"
proof -
  let ?df = "\<lparr>nrows = 4, cols = [(''NAME'', [Str ''T;  X ; Y'', Str ''T; X'', Str ''T'', PyNone]),
                                    (''v'', [Str ''1'', Str ''2'', Str ''3'', Str ''4''])]\<rparr>"
  have h: "getitem \<lparr>nrows = 2, cols = [(''NAME'', [Str ''A; B; C'', Str ''A; B; C; D''])]\<rparr>
             ''NAME'' = Inr [Str ''A; B; C'', Str ''A; B; C; D'']"
    by (simp add: getitem_def)
  have w: "width (map split_cell [Str ''A; B; C'', Str ''A; B; C; D'']) = 4"
    by code_simp
  have h2: "getitem ?df ''NAME'' = Inr [Str ''T;  X ; Y'', Str ''T; X'', Str ''T'', PyNone]"
    by (simp add: getitem_def)
  have w2: "width (map split_cell [Str ''T;  X ; Y'', Str ''T; X'', Str ''T'', PyNone]) = 3"
    by code_simp
  have e: "preprocess_name_column ?df
      = Inr \<lparr>nrows = 4, cols = [(''v'', [Str ''1'', Str ''2'', Str ''3'', Str ''4'']),
               (''County_Name'', [Str ''X'', Str ''X'', PyNone, PyNone]),
               (''State_Name'', [Str ''Y'', PyNone, PyNone, PyNone])]\<rparr>"
    by code_simp
  from C3_split_fails_iff_width_not_three [OF h] w
  have a: "preprocess_name_column
     \<lparr>nrows = 2, cols = [(''NAME'', [Str ''A; B; C'', Str ''A; B; C; D''])]\<rparr> = Inl ValueError"
    by simp
  from C3_split_fails_iff_width_not_three [OF h2] w2
  have "\<exists>df'. preprocess_name_column ?df = Inr df'" by simp
  with e have b: "\<exists>df'. preprocess_name_column ?df = Inr df'
           \<and> getitem df' ''County_Name'' = Inr [Str ''X'', Str ''X'', PyNone, PyNone]
           \<and> getitem df' ''State_Name'' = Inr [Str ''Y'', PyNone, PyNone, PyNone]
           \<and> getitem df' ''v'' = Inr [Str ''1'', Str ''2'', Str ''3'', Str ''4'']
           \<and> columns df' = [''v'', ''County_Name'', ''State_Name'']"
    by (simp add: getitem_def columns_def)
  from a w w2 b show ?thesis by (intro conjI)
qed

subsection \<open>The order of the columns\<close>








subsection \<open>The scenario\<close>

text \<open>
  C5. The response with the header \<^verbatim>\<open>NAME, state, county, tract, DP1_0078C\<close> and the
  single row of the scenario is cleaned into one record with \<^verbatim>\<open>geo_id\<close>
  \<^verbatim>\<open>06001000100\<close>, \<^verbatim>\<open>State_Name\<close> \<^verbatim>\<open>State Y\<close>, \<^verbatim>\<open>County_Name\<close> \<^verbatim>\<open>County X\<close> and
  \<^verbatim>\<open>white_population\<close> \<^verbatim>\<open>523\<close>.
\<close>

theorem C5_end_to_end_scenario:
  "clean_population_distribution_data
     [Table [''NAME'', ''state'', ''county'', ''tract'', ''DP1_0078C'']
        [[Str ''Tract 1; County X; State Y'', Str ''06'', Str ''001'', Str ''000100'',
          Str ''523'']]]
   = Inr \<lparr>nrows = 1,
          cols = [(''geo_id'', [Str ''06001000100'']), (''state'', [Str ''06'']),
                  (''State_Name'', [Str ''State Y'']), (''county'', [Str ''001'']),
                  (''County_Name'', [Str ''County X'']), (''tract'', [Str ''000100'']),
                  (''white_population'', [Str ''523''])]\<rparr>"
  by code_simp

subsection \<open>The merge\<close>

lemma map_of_map_fst:
  "map_of (map (\<lambda>c. (fst c, f c)) cs) k = map_option (\<lambda>v. f (k, v)) (map_of cs k)"
  by (induction cs) auto

lemma map_of_eq_None_columns: "map_of (cols df) c = None \<longleftrightarrow> c \<notin> set (columns df)"
  by (simp add: columns_def map_of_eq_None_iff)

lemma length_row_keys [simp]: "length (row_keys df keys) = nrows df"
  by (simp add: row_keys_def)

lemma nth_row_keys: "i < nrows df \<Longrightarrow> row_keys df keys ! i = row_key df keys i"
  by (simp add: row_keys_def)

lemma join_pairs_left_only:
  assumes "i < length lk" and "\<forall>j<length rk. \<not> key_match (lk ! i) (rk ! j)"
  shows "(Some i, None) \<in> set (join_pairs lk rk)"
proof -
  from assms(2) have "filter (\<lambda>j. key_match (lk ! i) (rk ! j)) [0..<length rk] = []"
    by (simp add: filter_empty_conv)
  with assms(1) show ?thesis
    unfolding join_pairs_def Let_def
    by (auto intro!: bexI [of _ i])
qed

lemma join_pairs_right_only:
  assumes "j < length rk" and "\<forall>i<length lk. \<not> key_match (lk ! i) (rk ! j)"
  shows "(None, Some j) \<in> set (join_pairs lk rk)"
proof -
  from assms(2) have "\<not> list_ex (\<lambda>k. key_match k (rk ! j)) lk"
    by (auto simp: list_ex_iff in_set_conv_nth)
  with assms(1) show ?thesis
    unfolding join_pairs_def Let_def by auto
qed

lemma join_pairs_shape:
  assumes "p \<in> set (join_pairs lk rk)"
  shows "(\<exists>i<length lk. fst p = Some i) \<or> (fst p = None \<and> (\<exists>j<length rk. snd p = Some j))"
  using assms unfolding join_pairs_def Let_def
  by (auto split: if_splits)

lemma no_overlap_filter:
  "no_overlap l r keys \<Longrightarrow>
     filter (\<lambda>c. c \<notin> set keys \<and> c \<in> set (columns r)) (columns l) = []"
  by (auto simp: no_overlap_def list_all_iff filter_empty_conv)

lemma pd_merge_Inr:
  assumes "pd_merge l r keys = Inr m" and "no_overlap l r keys"
  shows "set keys \<subseteq> set (columns l) \<and> set keys \<subseteq> set (columns r)
     \<and> m = \<lparr>nrows = length (join_pairs (row_keys l keys) (row_keys r keys)),
            cols = map (\<lambda>c. (fst c,
                         if fst c \<in> set keys
                         then take_key (snd c) (column_or_nan (fst c) r)
                                (join_pairs (row_keys l keys) (row_keys r keys))
                         else take_rows (snd c)
                                (map fst (join_pairs (row_keys l keys) (row_keys r keys)))))
                     (cols l)
                 @ map (\<lambda>c. (fst c, take_rows (snd c)
                                (map snd (join_pairs (row_keys l keys) (row_keys r keys)))))
                     (filter (\<lambda>c. fst c \<notin> set keys) (cols r))\<rparr>"
proof -
  from assms(1) have k: "list_all (\<lambda>k. k \<in> set (columns l)) keys"
      "list_all (\<lambda>k. k \<in> set (columns r)) keys"
    by (auto simp: pd_merge_def split: if_splits)
  then have sub: "set keys \<subseteq> set (columns l) \<and> set keys \<subseteq> set (columns r)"
    by (auto simp: list_all_iff)
  note ov = no_overlap_filter [OF assms(2)]
  have "pd_merge l r keys = Inr \<lparr>nrows = length (join_pairs (row_keys l keys) (row_keys r keys)),
            cols = map (\<lambda>c. (fst c,
                         if fst c \<in> set keys
                         then take_key (snd c) (column_or_nan (fst c) r)
                                (join_pairs (row_keys l keys) (row_keys r keys))
                         else take_rows (snd c)
                                (map fst (join_pairs (row_keys l keys) (row_keys r keys)))))
                     (cols l)
                 @ map (\<lambda>c. (fst c, take_rows (snd c)
                                (map snd (join_pairs (row_keys l keys) (row_keys r keys)))))
                     (filter (\<lambda>c. fst c \<notin> set keys) (cols r))\<rparr>"
    unfolding pd_merge_def Let_def ov using k by (simp cong: if_cong add: if_distrib)
  with assms(1) sub show ?thesis by simp
qed

lemma pd_merge_nrows:
  assumes "pd_merge l r keys = Inr m" and "no_overlap l r keys"
  shows "nrows m = length (join_pairs (row_keys l keys) (row_keys r keys))"
proof -
  from pd_merge_Inr [OF assms] obtain cs where
    "m = \<lparr>nrows = length (join_pairs (row_keys l keys) (row_keys r keys)), cols = cs\<rparr>"
    by blast
  then show ?thesis by simp
qed

lemma pd_merge_columns:
  assumes "pd_merge l r keys = Inr m" and "no_overlap l r keys"
  shows "columns m = columns l @ filter (\<lambda>c. c \<notin> set keys) (columns r)"
proof -
  from pd_merge_Inr [OF assms] obtain cs1 cs2 n where
    "m = \<lparr>nrows = n, cols = cs1 @ cs2\<rparr>" "map fst cs1 = map fst (cols l)"
    "map fst cs2 = map fst (filter (\<lambda>c. fst c \<notin> set keys) (cols r))"
    by (auto simp: comp_def)
  then show ?thesis by (simp add: columns_def filter_map comp_def)
qed

lemma column_or_nan_mem:
  "c \<in> set (columns df) \<Longrightarrow> \<exists>vs. map_of (cols df) c = Some vs \<and> column_or_nan c df = vs"
  by (cases "map_of (cols df) c") (auto simp: column_or_nan_def map_of_eq_None_columns)

lemma pd_merge_cell_left:
  assumes "pd_merge l r keys = Inr m" and "no_overlap l r keys"
    and "c \<in> set (columns l)" and "k < nrows m"
  shows "cell_at m c k =
     (case fst (join_pairs (row_keys l keys) (row_keys r keys) ! k) of
        Some i \<Rightarrow> cell_at l c i
      | None \<Rightarrow>
          (if c \<in> set keys
           then (case snd (join_pairs (row_keys l keys) (row_keys r keys) ! k) of
                   Some j \<Rightarrow> cell_at r c j
                 | None \<Rightarrow> NaN)
           else NaN))"
proof -
  let ?pairs = "join_pairs (row_keys l keys) (row_keys r keys)"
  from column_or_nan_mem [OF assms(3)] obtain vs where
    vs: "map_of (cols l) c = Some vs" "column_or_nan c l = vs" by blast
  from pd_merge_nrows [OF assms(1,2)] assms(4) have k: "k < length ?pairs" by simp
  from pd_merge_Inr [OF assms(1,2)] vs(1) have
    "column_or_nan c m = (if c \<in> set keys then take_key vs (column_or_nan c r) ?pairs
                          else take_rows vs (map fst ?pairs))"
    by (simp add: column_or_nan_def map_of_map_fst map_add_def)
  with k vs(2) show ?thesis
    by (simp add: cell_at_def take_key_def take_rows_def split: option.splits)
qed

lemma pd_merge_cell_right:
  assumes "pd_merge l r keys = Inr m" and "no_overlap l r keys"
    and "c \<in> set (columns r)" and "c \<notin> set keys" and "k < nrows m"
  shows "cell_at m c k =
     (case snd (join_pairs (row_keys l keys) (row_keys r keys) ! k) of
        Some j \<Rightarrow> cell_at r c j
      | None \<Rightarrow> NaN)"
proof -
  let ?pairs = "join_pairs (row_keys l keys) (row_keys r keys)"
  from column_or_nan_mem [OF assms(3)] obtain vs where
    vs: "map_of (cols r) c = Some vs" "column_or_nan c r = vs" by blast
  from assms(2,3,4) have "c \<notin> set (columns l)"
    by (auto simp: no_overlap_def list_all_iff)
  then have n: "map_of (cols l) c = None" by (simp add: map_of_eq_None_columns)
  from pd_merge_nrows [OF assms(1,2)] assms(5) have k: "k < length ?pairs" by simp
  have f: "map_of (filter (\<lambda>c. fst c \<notin> set keys) (cols r)) c = Some vs"
    using map_of_filter_fst [of "\<lambda>c. c \<notin> set keys" "cols r" c] assms(4) vs(1) by simp
  from pd_merge_Inr [OF assms(1,2)] n f have
    "column_or_nan c m = take_rows vs (map snd ?pairs)"
    by (simp add: column_or_nan_def map_of_map_fst map_add_def)
  with k vs(2) show ?thesis
    by (simp add: cell_at_def take_rows_def split: option.splits)
qed

lemma cell_match_sym: "cell_match a b = cell_match b a"
  by (auto simp: cell_match_def)

lemma key_match_sym: "key_match k1 k2 = key_match k2 k1"
  unfolding key_match_def
  using list_all2_conv_all_nth [of cell_match k1 k2] list_all2_conv_all_nth [of cell_match k2 k1]
    cell_match_sym
  by auto

lemma pd_merge_succeeds:
  "set keys \<subseteq> set (columns l) \<Longrightarrow> set keys \<subseteq> set (columns r) \<Longrightarrow>
     \<exists>m. pd_merge l r keys = Inr m"
  by (simp add: pd_merge_def Let_def list_all_iff subset_iff)

lemma merge_left_only:
  assumes "pd_merge l r keys = Inr m" and "no_overlap l r keys" and "i < nrows l"
    and "\<forall>j<nrows r. \<not> key_match (row_key l keys i) (row_key r keys j)"
  shows "\<exists>k<nrows m. (\<forall>c\<in>set (columns l). cell_at m c k = cell_at l c i)
           \<and> (\<forall>c\<in>set (columns r). c \<notin> set keys \<longrightarrow> cell_at m c k = NaN)"
proof -
  let ?pairs = "join_pairs (row_keys l keys) (row_keys r keys)"
  from assms(3,4) have "(Some i, None) \<in> set ?pairs"
    by (intro join_pairs_left_only) (simp_all add: nth_row_keys)
  then obtain k where k: "k < length ?pairs" "?pairs ! k = (Some i, None)"
    by (auto simp: in_set_conv_nth)
  with pd_merge_nrows [OF assms(1,2)] have kn: "k < nrows m" by simp
  have "cell_at m c k = cell_at l c i" if "c \<in> set (columns l)" for c
    using pd_merge_cell_left [OF assms(1,2) that kn] k(2) by simp
  moreover have "cell_at m c k = NaN" if "c \<in> set (columns r)" "c \<notin> set keys" for c
    using pd_merge_cell_right [OF assms(1,2) that kn] k(2) by simp
  ultimately show ?thesis using kn by blast
qed

lemma merge_right_only:
  assumes "pd_merge l r keys = Inr m" and "no_overlap l r keys" and "j < nrows r"
    and "\<forall>i<nrows l. \<not> key_match (row_key l keys i) (row_key r keys j)"
  shows "\<exists>k<nrows m. (\<forall>c\<in>set (columns r). cell_at m c k = cell_at r c j)
           \<and> (\<forall>c\<in>set (columns l). c \<notin> set keys \<longrightarrow> cell_at m c k = NaN)"
proof -
  let ?pairs = "join_pairs (row_keys l keys) (row_keys r keys)"
  from assms(3,4) have "(None, Some j) \<in> set ?pairs"
    by (intro join_pairs_right_only) (simp_all add: nth_row_keys)
  then obtain k where k: "k < length ?pairs" "?pairs ! k = (None, Some j)"
    by (auto simp: in_set_conv_nth)
  with pd_merge_nrows [OF assms(1,2)] have kn: "k < nrows m" by simp
  from pd_merge_Inr [OF assms(1,2)] have sub: "set keys \<subseteq> set (columns l)" by blast
  have "cell_at m c k = cell_at r c j" if c: "c \<in> set (columns r)" for c
  proof (cases "c \<in> set keys")
    case True
    with sub have "c \<in> set (columns l)" by blast
    from pd_merge_cell_left [OF assms(1,2) this kn] k(2) True show ?thesis by simp
  next
    case False
    from pd_merge_cell_right [OF assms(1,2) c False kn] k(2) show ?thesis by simp
  qed
  moreover have "cell_at m c k = NaN" if "c \<in> set (columns l)" "c \<notin> set keys" for c
    using pd_merge_cell_left [OF assms(1,2) that(1) kn] k(2) that(2) by simp
  ultimately show ?thesis using kn by blast
qed

lemma merge_key_origin:
  assumes "pd_merge l r keys = Inr m" and "no_overlap l r keys" and "k < nrows m"
  shows "(\<exists>i<nrows l. row_key m keys k = row_key l keys i)
       \<or> (\<exists>j<nrows r. row_key m keys k = row_key r keys j)"
proof -
  let ?pairs = "join_pairs (row_keys l keys) (row_keys r keys)"
  from pd_merge_nrows [OF assms(1,2)] assms(3) have "?pairs ! k \<in> set ?pairs" by simp
  from join_pairs_shape [OF this] consider
    i where "i < nrows l" "fst (?pairs ! k) = Some i"
    | j where "j < nrows r" "fst (?pairs ! k) = None" "snd (?pairs ! k) = Some j"
    by auto
  moreover from pd_merge_Inr [OF assms(1,2)] have sub: "set keys \<subseteq> set (columns l)" by blast
  ultimately show ?thesis
  proof cases
    case 1
    have "cell_at m c k = cell_at l c i" if "c \<in> set keys" for c
    proof -
      from that sub have "c \<in> set (columns l)" by blast
      from pd_merge_cell_left [OF assms(1,2) this assms(3)] 1(2) show ?thesis by simp
    qed
    then have "row_key m keys k = row_key l keys i" by (simp add: row_key_def)
    with 1(1) show ?thesis by blast
  next
    case 2
    have "cell_at m c k = cell_at r c j" if "c \<in> set keys" for c
    proof -
      from that sub have "c \<in> set (columns l)" by blast
      from pd_merge_cell_left [OF assms(1,2) this assms(3)] 2(2,3) that show ?thesis by simp
    qed
    then have "row_key m keys k = row_key r keys j" by (simp add: row_key_def)
    with 2(1) show ?thesis by blast
  qed
qed

lemma row_key_cong:
  "set keys \<subseteq> C \<Longrightarrow> \<forall>c\<in>C. cell_at m c k = cell_at l c i \<Longrightarrow>
     row_key m keys k = row_key l keys i"
  by (auto simp: row_key_def)

lemma key_absent_iff:
  "key_absent key df keys \<longleftrightarrow> (\<forall>j<nrows df. \<not> key_match key (row_key df keys j))"
  by (auto simp: key_absent_def list_all_iff)

lemma no_overlap_merged:
  assumes "pd_merge l r keys = Inr m" and "no_overlap l r keys"
    and "no_overlap l x keys" and "no_overlap r x keys"
  shows "no_overlap m x keys"
  using assms(3,4) pd_merge_columns [OF assms(1,2)]
  by (auto simp: no_overlap_def list_all_iff)

lemma process_census_data_to_csv_merge:
  assumes "clean_population_distribution_data dp_responses = Inr dp"
    and "clean_housing_characteristics_data dhc_responses = Inr dhc"
    and "clean_community_resilience_data cre_responses = Inr cre"
  shows "process_census_data_to_csv dp_responses dhc_responses cre_responses
           = merge_cleaned dp dhc cre"
  using assms by (simp add: process_census_data_to_csv_def)

text \<open>
  C8. For three frames that have the six key columns and share no label outside the keys:
  the two merges return a frame, and every row of one of the three frames whose key
  matches no key of the other two is a row of that frame, with its own cells in the
  columns of its frame and \<^verbatim>\<open>NaN\<close> in every column outside the keys that comes from the
  other two frames.
\<close>

theorem C8_outer_join_keeps_unmatched_rows:
  assumes "set merge_keys \<subseteq> set (columns dp)" and "set merge_keys \<subseteq> set (columns dhc)"
    and "set merge_keys \<subseteq> set (columns cre)"
    and "no_overlap dp dhc merge_keys" and "no_overlap dp cre merge_keys"
    and "no_overlap dhc cre merge_keys"
  shows "\<exists>merged. merge_cleaned dp dhc cre = Inr merged
     \<and> (\<forall>i<nrows dp.
          key_absent (row_key dp merge_keys i) dhc merge_keys
          \<and> key_absent (row_key dp merge_keys i) cre merge_keys \<longrightarrow>
          (\<exists>k<nrows merged.
              (\<forall>c\<in>set (columns dp). cell_at merged c k = cell_at dp c i)
              \<and> (\<forall>c\<in>set (columns dhc) \<union> set (columns cre).
                    c \<notin> set merge_keys \<longrightarrow> cell_at merged c k = NaN)))
     \<and> (\<forall>i<nrows dhc.
          key_absent (row_key dhc merge_keys i) dp merge_keys
          \<and> key_absent (row_key dhc merge_keys i) cre merge_keys \<longrightarrow>
          (\<exists>k<nrows merged.
              (\<forall>c\<in>set (columns dhc). cell_at merged c k = cell_at dhc c i)
              \<and> (\<forall>c\<in>set (columns dp) \<union> set (columns cre).
                    c \<notin> set merge_keys \<longrightarrow> cell_at merged c k = NaN)))
     \<and> (\<forall>i<nrows cre.
          key_absent (row_key cre merge_keys i) dp merge_keys
          \<and> key_absent (row_key cre merge_keys i) dhc merge_keys \<longrightarrow>
          (\<exists>k<nrows merged.
              (\<forall>c\<in>set (columns cre). cell_at merged c k = cell_at cre c i)
              \<and> (\<forall>c\<in>set (columns dp) \<union> set (columns dhc).
                    c \<notin> set merge_keys \<longrightarrow> cell_at merged c k = NaN)))"
proof -
  let ?K = merge_keys
  from pd_merge_succeeds [OF assms(1,2)] obtain m1 where m1: "pd_merge dp dhc ?K = Inr m1"
    by blast
  note c1 = pd_merge_columns [OF m1 assms(4)]
  from c1 assms(1) have k1: "set ?K \<subseteq> set (columns m1)" by auto
  from pd_merge_succeeds [OF k1 assms(3)] obtain m2 where m2: "pd_merge m1 cre ?K = Inr m2"
    by blast
  note o2 = no_overlap_merged [OF m1 assms(4,5,6)]
  from m1 m2 have run: "merge_cleaned dp dhc cre = Inr m2"
    by (simp add: merge_cleaned_def and_then_def)
  have sub_dp: "set (columns dp) \<subseteq> set (columns m1)" using c1 by auto
  have sub_dhc: "set (columns dhc) \<subseteq> set (columns m1)" using c1 assms(1) by auto
  have part_dp: "\<exists>k<nrows m2.
              (\<forall>c\<in>set (columns dp). cell_at m2 c k = cell_at dp c i)
              \<and> (\<forall>c\<in>set (columns dhc) \<union> set (columns cre).
                    c \<notin> set ?K \<longrightarrow> cell_at m2 c k = NaN)"
    if i: "i < nrows dp" and a: "key_absent (row_key dp ?K i) dhc ?K"
      "key_absent (row_key dp ?K i) cre ?K" for i
  proof -
    from a(1) have "\<forall>j<nrows dhc. \<not> key_match (row_key dp ?K i) (row_key dhc ?K j)"
      by (simp add: key_absent_iff)
    from merge_left_only [OF m1 assms(4) i this] obtain k1 where
      k1: "k1 < nrows m1" "\<forall>c\<in>set (columns dp). cell_at m1 c k1 = cell_at dp c i"
        "\<forall>c\<in>set (columns dhc). c \<notin> set ?K \<longrightarrow> cell_at m1 c k1 = NaN"
      by blast
    from assms(1) k1(2) have "row_key m1 ?K k1 = row_key dp ?K i" by (rule row_key_cong)
    with a(2) have "\<forall>j<nrows cre. \<not> key_match (row_key m1 ?K k1) (row_key cre ?K j)"
      by (simp add: key_absent_iff)
    from merge_left_only [OF m2 o2 k1(1) this] obtain k2 where
      k2: "k2 < nrows m2" "\<forall>c\<in>set (columns m1). cell_at m2 c k2 = cell_at m1 c k1"
        "\<forall>c\<in>set (columns cre). c \<notin> set ?K \<longrightarrow> cell_at m2 c k2 = NaN"
      by blast
    have "cell_at m2 c k2 = cell_at dp c i" if "c \<in> set (columns dp)" for c
      using that k1(2) k2(2) sub_dp by auto
    moreover have "cell_at m2 c k2 = NaN"
      if "c \<in> set (columns dhc) \<union> set (columns cre)" "c \<notin> set ?K" for c
      using that k1(3) k2(2,3) sub_dhc by auto
    ultimately show ?thesis using k2(1) by blast
  qed
  have part_dhc: "\<exists>k<nrows m2.
              (\<forall>c\<in>set (columns dhc). cell_at m2 c k = cell_at dhc c i)
              \<and> (\<forall>c\<in>set (columns dp) \<union> set (columns cre).
                    c \<notin> set ?K \<longrightarrow> cell_at m2 c k = NaN)"
    if i: "i < nrows dhc" and a: "key_absent (row_key dhc ?K i) dp ?K"
      "key_absent (row_key dhc ?K i) cre ?K" for i
  proof -
    from a(1) have "\<forall>j<nrows dp. \<not> key_match (row_key dp ?K j) (row_key dhc ?K i)"
      using key_match_sym by (simp add: key_absent_iff)
    from merge_right_only [OF m1 assms(4) i this] obtain k1 where
      k1: "k1 < nrows m1" "\<forall>c\<in>set (columns dhc). cell_at m1 c k1 = cell_at dhc c i"
        "\<forall>c\<in>set (columns dp). c \<notin> set ?K \<longrightarrow> cell_at m1 c k1 = NaN"
      by blast
    from assms(2) k1(2) have "row_key m1 ?K k1 = row_key dhc ?K i" by (rule row_key_cong)
    with a(2) have "\<forall>j<nrows cre. \<not> key_match (row_key m1 ?K k1) (row_key cre ?K j)"
      by (simp add: key_absent_iff)
    from merge_left_only [OF m2 o2 k1(1) this] obtain k2 where
      k2: "k2 < nrows m2" "\<forall>c\<in>set (columns m1). cell_at m2 c k2 = cell_at m1 c k1"
        "\<forall>c\<in>set (columns cre). c \<notin> set ?K \<longrightarrow> cell_at m2 c k2 = NaN"
      by blast
    have "cell_at m2 c k2 = cell_at dhc c i" if "c \<in> set (columns dhc)" for c
      using that k1(2) k2(2) sub_dhc by auto
    moreover have "cell_at m2 c k2 = NaN"
      if "c \<in> set (columns dp) \<union> set (columns cre)" "c \<notin> set ?K" for c
      using that k1(3) k2(2,3) sub_dp by auto
    ultimately show ?thesis using k2(1) by blast
  qed
  have part_cre: "\<exists>k<nrows m2.
              (\<forall>c\<in>set (columns cre). cell_at m2 c k = cell_at cre c i)
              \<and> (\<forall>c\<in>set (columns dp) \<union> set (columns dhc).
                    c \<notin> set ?K \<longrightarrow> cell_at m2 c k = NaN)"
    if i: "i < nrows cre" and a: "key_absent (row_key cre ?K i) dp ?K"
      "key_absent (row_key cre ?K i) dhc ?K" for i
  proof -
    have "\<not> key_match (row_key m1 ?K k) (row_key cre ?K i)" if "k < nrows m1" for k
    proof -
      from merge_key_origin [OF m1 assms(4) that] consider
        j where "j < nrows dp" "row_key m1 ?K k = row_key dp ?K j"
        | j where "j < nrows dhc" "row_key m1 ?K k = row_key dhc ?K j"
        by blast
      then show ?thesis
      proof cases
        case 1
        with a(1) show ?thesis using key_match_sym by (simp add: key_absent_iff)
      next
        case 2
        with a(2) show ?thesis using key_match_sym by (simp add: key_absent_iff)
      qed
    qed
    then have "\<forall>k<nrows m1. \<not> key_match (row_key m1 ?K k) (row_key cre ?K i)" by blast
    from merge_right_only [OF m2 o2 i this] obtain k2 where
      k2: "k2 < nrows m2" "\<forall>c\<in>set (columns cre). cell_at m2 c k2 = cell_at cre c i"
        "\<forall>c\<in>set (columns m1). c \<notin> set ?K \<longrightarrow> cell_at m2 c k2 = NaN"
      by blast
    have "cell_at m2 c k2 = NaN"
      if "c \<in> set (columns dp) \<union> set (columns dhc)" "c \<notin> set ?K" for c
      using that k2(3) sub_dp sub_dhc by auto
    with k2(1,2) show ?thesis by blast
  qed
  have "merge_cleaned dp dhc cre = Inr m2
     \<and> (\<forall>i<nrows dp.
          key_absent (row_key dp merge_keys i) dhc merge_keys
          \<and> key_absent (row_key dp merge_keys i) cre merge_keys \<longrightarrow>
          (\<exists>k<nrows m2.
              (\<forall>c\<in>set (columns dp). cell_at m2 c k = cell_at dp c i)
              \<and> (\<forall>c\<in>set (columns dhc) \<union> set (columns cre).
                    c \<notin> set merge_keys \<longrightarrow> cell_at m2 c k = NaN)))
     \<and> (\<forall>i<nrows dhc.
          key_absent (row_key dhc merge_keys i) dp merge_keys
          \<and> key_absent (row_key dhc merge_keys i) cre merge_keys \<longrightarrow>
          (\<exists>k<nrows m2.
              (\<forall>c\<in>set (columns dhc). cell_at m2 c k = cell_at dhc c i)
              \<and> (\<forall>c\<in>set (columns dp) \<union> set (columns cre).
                    c \<notin> set merge_keys \<longrightarrow> cell_at m2 c k = NaN)))
     \<and> (\<forall>i<nrows cre.
          key_absent (row_key cre merge_keys i) dp merge_keys
          \<and> key_absent (row_key cre merge_keys i) dhc merge_keys \<longrightarrow>
          (\<exists>k<nrows m2.
              (\<forall>c\<in>set (columns cre). cell_at m2 c k = cell_at cre c i)
              \<and> (\<forall>c\<in>set (columns dp) \<union> set (columns dhc).
                    c \<notin> set merge_keys \<longrightarrow> cell_at m2 c k = NaN)))"
  proof (intro conjI allI impI)
    show "merge_cleaned dp dhc cre = Inr m2" by (rule run)
  next
    fix i assume "i < nrows dp" and "key_absent (row_key dp merge_keys i) dhc merge_keys
          \<and> key_absent (row_key dp merge_keys i) cre merge_keys"
    then show "\<exists>k<nrows m2.
              (\<forall>c\<in>set (columns dp). cell_at m2 c k = cell_at dp c i)
              \<and> (\<forall>c\<in>set (columns dhc) \<union> set (columns cre).
                    c \<notin> set merge_keys \<longrightarrow> cell_at m2 c k = NaN)"
      using part_dp [of i] by simp
  next
    fix i assume "i < nrows dhc" and "key_absent (row_key dhc merge_keys i) dp merge_keys
          \<and> key_absent (row_key dhc merge_keys i) cre merge_keys"
    then show "\<exists>k<nrows m2.
              (\<forall>c\<in>set (columns dhc). cell_at m2 c k = cell_at dhc c i)
              \<and> (\<forall>c\<in>set (columns dp) \<union> set (columns cre).
                    c \<notin> set merge_keys \<longrightarrow> cell_at m2 c k = NaN)"
      using part_dhc [of i] by simp
  next
    fix i assume "i < nrows cre" and "key_absent (row_key cre merge_keys i) dp merge_keys
          \<and> key_absent (row_key cre merge_keys i) dhc merge_keys"
    then show "\<exists>k<nrows m2.
              (\<forall>c\<in>set (columns cre). cell_at m2 c k = cell_at cre c i)
              \<and> (\<forall>c\<in>set (columns dp) \<union> set (columns dhc).
                    c \<notin> set merge_keys \<longrightarrow> cell_at m2 c k = NaN)"
      using part_cre [of i] by simp
  qed
  then show ?thesis by (rule exI [of _ m2])
qed

theorem C8_outer_join_keeps_unmatched_rows_witness:
  "merge_cleaned
     \<lparr>nrows = 2, cols = [(''geo_id'', [Str ''06001000100'', Str ''06001000200'']),
           (''state'', [Str ''06'', Str ''06'']),
           (''State_Name'', [Str ''State Y'', Str ''State Y'']),
           (''county'', [Str ''001'', Str ''001'']),
           (''County_Name'', [Str ''County X'', Str ''County X'']),
           (''tract'', [Str ''000100'', Str ''000200'']),
           (''white_population'', [Str ''523'', Str ''7''])]\<rparr>
     \<lparr>nrows = 2, cols = [(''geo_id'', [Str ''06001000200'', Str ''06001000300'']),
           (''state'', [Str ''06'', Str ''06'']),
           (''State_Name'', [Str ''State Y'', Str ''State Y'']),
           (''county'', [Str ''001'', Str ''001'']),
           (''County_Name'', [Str ''County X'', Str ''County X'']),
           (''tract'', [Str ''000200'', Str ''000300'']),
           (''owner_occuppied_white'', [Str ''h2'', Str ''h3''])]\<rparr>
     \<lparr>nrows = 2, cols = [(''geo_id'', [Str ''06001000400'', Str ''06001000200'']),
           (''state'', [Str ''06'', Str ''06'']),
           (''State_Name'', [Str ''State Y'', Str ''State Y'']),
           (''county'', [Str ''001'', Str ''001'']),
           (''County_Name'', [Str ''County X'', Str ''County X'']),
           (''tract'', [Str ''000400'', Str ''000200'']),
           (''rate'', [Str ''c4'', Str ''c2''])]\<rparr>
   = Inr \<lparr>nrows = 4,
          cols = [(''geo_id'', [Str ''06001000100'', Str ''06001000200'', Str ''06001000300'',
                               Str ''06001000400'']),
                  (''state'', [Str ''06'', Str ''06'', Str ''06'', Str ''06'']),
                  (''State_Name'', [Str ''State Y'', Str ''State Y'', Str ''State Y'',
                                    Str ''State Y'']),
                  (''county'', [Str ''001'', Str ''001'', Str ''001'', Str ''001'']),
                  (''County_Name'', [Str ''County X'', Str ''County X'', Str ''County X'',
                                     Str ''County X'']),
                  (''tract'', [Str ''000100'', Str ''000200'', Str ''000300'', Str ''000400'']),
                  (''white_population'', [Str ''523'', Str ''7'', NaN, NaN]),
                  (''owner_occuppied_white'', [NaN, Str ''h2'', Str ''h3'', NaN]),
                  (''rate'', [NaN, Str ''c2'', NaN, Str ''c4''])]\<rparr>"
proof -
  let ?dp = "\<lparr>nrows = 2, cols = [(''geo_id'', [Str ''06001000100'', Str ''06001000200'']),
           (''state'', [Str ''06'', Str ''06'']),
           (''State_Name'', [Str ''State Y'', Str ''State Y'']),
           (''county'', [Str ''001'', Str ''001'']),
           (''County_Name'', [Str ''County X'', Str ''County X'']),
           (''tract'', [Str ''000100'', Str ''000200'']),
           (''white_population'', [Str ''523'', Str ''7''])]\<rparr>"
  let ?dhc = "\<lparr>nrows = 2, cols = [(''geo_id'', [Str ''06001000200'', Str ''06001000300'']),
           (''state'', [Str ''06'', Str ''06'']),
           (''State_Name'', [Str ''State Y'', Str ''State Y'']),
           (''county'', [Str ''001'', Str ''001'']),
           (''County_Name'', [Str ''County X'', Str ''County X'']),
           (''tract'', [Str ''000200'', Str ''000300'']),
           (''owner_occuppied_white'', [Str ''h2'', Str ''h3''])]\<rparr>"
  let ?cre = "\<lparr>nrows = 2, cols = [(''geo_id'', [Str ''06001000400'', Str ''06001000200'']),
           (''state'', [Str ''06'', Str ''06'']),
           (''State_Name'', [Str ''State Y'', Str ''State Y'']),
           (''county'', [Str ''001'', Str ''001'']),
           (''County_Name'', [Str ''County X'', Str ''County X'']),
           (''tract'', [Str ''000400'', Str ''000200'']),
           (''rate'', [Str ''c4'', Str ''c2''])]\<rparr>"
  have h1: "set merge_keys \<subseteq> set (columns ?dp)" by code_simp
  have h2: "set merge_keys \<subseteq> set (columns ?dhc)" by code_simp
  have h3: "set merge_keys \<subseteq> set (columns ?cre)" by code_simp
  have h4: "no_overlap ?dp ?dhc merge_keys" by code_simp
  have h5: "no_overlap ?dp ?cre merge_keys" by code_simp
  have h6: "no_overlap ?dhc ?cre merge_keys" by code_simp
  have a: "key_absent (row_key ?dp merge_keys 0) ?dhc merge_keys
             \<and> key_absent (row_key ?dp merge_keys 0) ?cre merge_keys" by code_simp
  have e: "merge_cleaned ?dp ?dhc ?cre
   = Inr \<lparr>nrows = 4,
          cols = [(''geo_id'', [Str ''06001000100'', Str ''06001000200'', Str ''06001000300'',
                               Str ''06001000400'']),
                  (''state'', [Str ''06'', Str ''06'', Str ''06'', Str ''06'']),
                  (''State_Name'', [Str ''State Y'', Str ''State Y'', Str ''State Y'',
                                    Str ''State Y'']),
                  (''county'', [Str ''001'', Str ''001'', Str ''001'', Str ''001'']),
                  (''County_Name'', [Str ''County X'', Str ''County X'', Str ''County X'',
                                     Str ''County X'']),
                  (''tract'', [Str ''000100'', Str ''000200'', Str ''000300'', Str ''000400'']),
                  (''white_population'', [Str ''523'', Str ''7'', NaN, NaN]),
                  (''owner_occuppied_white'', [NaN, Str ''h2'', Str ''h3'', NaN]),
                  (''rate'', [NaN, Str ''c2'', NaN, Str ''c4''])]\<rparr>"
    by code_simp
  from C8_outer_join_keeps_unmatched_rows [OF h1 h2 h3 h4 h5 h6] a e show ?thesis by simp
qed

section \<open>Properties of the loader\<close>

lemmas eval_strings = lower_def lower_char_def endswith_def splitext_root_def

lemmas eval_engine = sqlite_execute_def integer_of_text_def digit_value_def insert_sql_def

subsection \<open>Quoting of column names\<close>



text \<open>
  C1. The claim: a column other than the primary key is quoted in the schema exactly when
  its name contains a blank, a comma, an ampersand or a period. The code at the header
  \<^verbatim>\<open>["geo_id", "abc"]\<close>: the column \<^verbatim>\<open>abc\<close> contains none of the four characters and
  is quoted all the same.
\<close>

theorem C1_plain_column_is_quoted:
  "remaining_columns ''geo_id'' [''geo_id'', ''abc''] = [[CHR 0x22] @ ''abc'' @ [CHR 0x22]]
   \<and> set ''abc'' \<inter> set '' ,&.'' = {}"
  by (simp add: remaining_columns_def needs_quotes_def quote_chars_def quoted_def)

subsection \<open>Files without a key column\<close>






subsection \<open>Failing inserts\<close>

text \<open>
  C4, as the claim states it: a violation of the primary key is the only failure of an
  insert that is caught, every other one ends the run. On an empty table of two columns
  the row \<^verbatim>\<open>["abc", "x"]\<close> cannot violate the primary key; its key text is not an integer,
  the engine reports a datatype mismatch, the driver raises \<^verbatim>\<open>IntegrityError\<close>, and the
  loop passes over the row and stores the next one.
\<close>

theorem C4_datatype_mismatch_is_caught:
  "sqlite_execute \<lparr>ncols = 2, stored = []\<rparr> (insert_sql ''t'' [''abc'', ''x'']) [''abc'', ''x'']
     = Inl SQLITE_MISMATCH
   \<and> insert_rows sqlite_execute ''t'' \<lparr>ncols = 2, stored = []\<rparr> [[''abc'', ''x''], [''7'', ''y'']]
     = Inr \<lparr>ncols = 2, stored = [(7, [''y''])]\<rparr>"
  by (simp add: eval_engine)

text \<open>
  C4, amended. For every cursor: when the insert of a row fails and the driver's exception
  is an \<^verbatim>\<open>IntegrityError\<close>, the row is dropped, the database is as before and the loop
  goes on with the next row; when the exception is of another class, it leaves the loop,
  and with it the whole run. A violation of the primary key is an \<^verbatim>\<open>IntegrityError\<close>; an
  SQL error, such as a wrong number of values, is not.
\<close>

theorem C4_integrity_error_skips_row_others_abort:
  "(execute db (insert_sql t row) row = Inl rc \<and> exception_class rc = IntegrityError \<longrightarrow>
      insert_rows execute t db (row # rows) = insert_rows execute t db rows)
   \<and> (execute db (insert_sql t row) row = Inl rc \<and> exception_class rc \<noteq> IntegrityError \<longrightarrow>
      insert_rows execute t db (row # rows) = Inl (exception_class rc))
   \<and> (endswith file ''.csv'' \<and> find_primary_key headers = Some pk
        \<and> execute db0 (table_creation_sql (splitext_root file) pk headers) [] = Inr db1
        \<and> insert_rows execute (splitext_root file) db1 data = Inl e \<longrightarrow>
      insert_tables_to_database execute ((file, headers # data) # fs) db0 = Inl e)
   \<and> exception_class SQLITE_CONSTRAINT_PRIMARYKEY = IntegrityError
   \<and> exception_class SQLITE_ERROR \<noteq> IntegrityError"
  by (simp add: insert_tables_to_database_def load_file_def)

theorem C4_integrity_error_skips_row_others_abort_witness:
  "insert_rows sqlite_execute ''t'' \<lparr>ncols = 2, stored = [(7, [''a''])]\<rparr>
       [[''7'', ''b''], [''8'', ''c'']]
     = Inr \<lparr>ncols = 2, stored = [(7, [''a'']), (8, [''c''])]\<rparr>
   \<and> insert_rows sqlite_execute ''t'' \<lparr>ncols = 2, stored = []\<rparr> [[''7''], [''8'', ''c'']]
     = Inl OperationalError
   \<and> insert_tables_to_database sqlite_execute
        [(''t.csv'', [[''geo_id'', ''v''], [''7''], [''8'', ''c'']])] \<lparr>ncols = 2, stored = []\<rparr>
     = Inl OperationalError"
  using C4_integrity_error_skips_row_others_abort
          [of sqlite_execute "\<lparr>ncols = 2, stored = [(7, [''a''])]\<rparr>" "''t''" "[''7'', ''b'']"
              SQLITE_CONSTRAINT_PRIMARYKEY "[[''8'', ''c'']]"]
        C4_integrity_error_skips_row_others_abort
          [of sqlite_execute "\<lparr>ncols = 2, stored = []\<rparr>" "''t''" "[''7'']"
              SQLITE_ERROR "[[''8'', ''c'']]" "''t.csv''" "[''geo_id'', ''v'']" "''geo_id''"
              "\<lparr>ncols = 2, stored = []\<rparr>" "\<lparr>ncols = 2, stored = []\<rparr>"
              "[[''7''], [''8'', ''c'']]" OperationalError "[]"]
  by (simp add: eval_engine table_creation_sql_def eval_strings)

subsection \<open>The generated statements, as the engine reads them\<close>



lemma not_ident_blank [simp]: "\<not> ident_char (CHR '' '')"
  by (simp add: ident_char_def)




text \<open>The schema of line 56: every column but the key is quoted, so each of them is read
  as one name whatever it contains, a double quote apart; the key is pasted as it is.\<close>

lemma not_rest_char [simp]:
  "\<not> rest_char (CHR '','')" "\<not> rest_char (CHR '')'')" "rest_char (CHR '' '')"
  by (simp_all add: rest_char_def ident_char_def)








subsection \<open>Declared columns and bound values\<close>












end
